theory Spec2Isabelle
  imports Main "HOL-Library.Sublist"
begin

section \<open>JavaScript values handled by the plugin\<close>

text \<open>
  The plugin (\<^verbatim>\<open>src/index.js\<close>, class \<^verbatim>\<open>StaticPagesPlugin\<close>) inspects the values it obtains
  from page scripts with \<^verbatim>\<open>typeof\<close>, truthiness tests and property reads only.  A function
  value is a zero-argument callable that either returns a value or throws one.  Numbers
  play no role in the plugin and are left out.
\<close>

datatype js_value = JUndefined | JNull | JBool bool | JString string
  | JObject "(string \<times> js_value) list"
  | JFunction fn_body
and fn_body = Returns js_value | Throws js_value

text \<open>
  Exceptions, tagged by the place that raises them: \<open>PluginError\<close> is a
  \<^verbatim>\<open>new Error(msg)\<close> thrown by the plugin itself (lines 127 and 159), \<open>Thrown\<close> is
  whatever page code throws, the others come from the runtime and the collaborators.
\<close>

datatype js_error =
    PluginError string
  | TypeError string
  | IOError string
  | SyntaxError string
  | Thrown js_value
  | TemplateError string

fun typeof :: "js_value \<Rightarrow> string" where
  "typeof JUndefined = ''undefined''"
| "typeof JNull = ''object''"
| "typeof (JBool b) = ''boolean''"
| "typeof (JString s) = ''string''"
| "typeof (JObject ps) = ''object''"
| "typeof (JFunction f) = ''function''"

fun truthy :: "js_value \<Rightarrow> bool" where
  "truthy JUndefined = False"
| "truthy JNull = False"
| "truthy (JBool b) = b"
| "truthy (JString s) = (s \<noteq> [])"
| "truthy (JObject ps) = True"
| "truthy (JFunction f) = True"

text \<open>
  Property read \<^verbatim>\<open>v.k\<close>: a \<^verbatim>\<open>TypeError\<close> on \<^verbatim>\<open>null\<close> and \<^verbatim>\<open>undefined\<close>, the stored
  value on an object, \<^verbatim>\<open>undefined\<close> for an absent property and on the other values (none
  of the property names the plugin reads is inherited from a prototype).
\<close>

fun get_prop :: "js_value \<Rightarrow> string \<Rightarrow> js_error + js_value" where
  "get_prop JUndefined k = Inl (TypeError k)"
| "get_prop JNull k = Inl (TypeError k)"
| "get_prop (JObject ps) k = Inr (case map_of ps k of None \<Rightarrow> JUndefined | Some v \<Rightarrow> v)"
| "get_prop v k = Inr JUndefined"

section \<open>Paths, regular expressions and file discovery\<close>

type_synonym path = string

text \<open>\<^verbatim>\<open>file.startsWith('_')\<close> (line 53).\<close>

fun startsWith_underscore :: "string \<Rightarrow> bool" where
  "startsWith_underscore [] = False"
| "startsWith_underscore (c # cs) = (c = CHR ''_'')"

text \<open>
  \<^verbatim>\<open>file.match(/^[^/]+/)\<close> (line 46) and \<^verbatim>\<open>file.match(/^[^.]+/)\<close> (line 57): the longest
  non-empty prefix free of the given character, or \<^verbatim>\<open>null\<close> when the string starts with
  that character or is empty.
\<close>

definition match_prefix_without :: "char \<Rightarrow> string \<Rightarrow> string option" where
  "match_prefix_without c s =
     (let m = takeWhile (\<lambda>x. x \<noteq> c) s in if m = [] then None else Some m)"

text \<open>\<^verbatim>\<open>path.match(/^\.\.?\//)\<close> (line 141).\<close>

fun matches_relative :: "string \<Rightarrow> bool" where
  "matches_relative (a # b # cs) =
     (a = CHR ''.'' \<and> (b = CHR ''/'' \<or> (b = CHR ''.'' \<and> (case cs of [] \<Rightarrow> False | c # _ \<Rightarrow> c = CHR ''/''))))"
| "matches_relative _ = False"

text \<open>
  \<^verbatim>\<open>path.resolve(dir, file)\<close> for an absolute, normalised directory without a trailing
  slash and a normalised relative path, which is what the configuration and
  \<^verbatim>\<open>glob.sync\<close> supply.  \<^verbatim>\<open>path.dirname\<close> for paths without a trailing slash.
\<close>

definition path_resolve :: "path \<Rightarrow> path \<Rightarrow> path" where
  "path_resolve dir file = dir @ ''/'' @ file"

definition path_dirname :: "path \<Rightarrow> path" where
  "path_dirname p =
     (if CHR ''/'' \<notin> set p then ''.''
      else let d = rev (drop 1 (dropWhile (\<lambda>c. c \<noteq> CHR ''/'') (rev p)))
           in if d = [] then ''/'' else d)"

fun segments :: "path \<Rightarrow> string list" where
  "segments [] = [[]]"
| "segments (c # cs) =
     (if c = CHR ''/'' then [] # segments cs
      else (case segments cs of [] \<Rightarrow> [[c]] | s # ss \<Rightarrow> (c # s) # ss))"

definition ends_with :: "string \<Rightarrow> string \<Rightarrow> bool" where
  "ends_with ext f = (length ext \<le> length f \<and> drop (length f - length ext) f = ext)"

definition hidden :: "path \<Rightarrow> bool" where
  "hidden f = (filter (\<lambda>s. take 1 s = ''.'') (segments f) \<noteq> [])"

section \<open>Collaborators\<close>

text \<open>
  A page script as the \<^verbatim>\<open>vm\<close> module runs it: a sequence of top-level statements.
  The forms are the ones that matter to the evaluator: an assignment to
  \<^verbatim>\<open>module.exports\<close>, an assignment to a property of \<^verbatim>\<open>exports\<close>, a call of
  \<^verbatim>\<open>require\<close>, any other expression statement (given by its value), a declaration
  (\<^verbatim>\<open>var\<close>, \<^verbatim>\<open>function\<close>: no completion value) and a \<^verbatim>\<open>throw\<close>.
\<close>

datatype stmt =
    AssignModuleExports js_value
  | AssignExportsProp string js_value
  | RequireCall string
  | Expression js_value
  | Declaration
  | ThrowStmt js_value

text \<open>
  Everything outside the plugin is a parameter: the file system (the regular files
  beneath a directory as relative paths in discovery order, and the text of a file), the
  parser of \<^verbatim>\<open>new vm.Script\<close>, \<^verbatim>\<open>Module.prototype.require\<close> of the module created
  for a file (\<open>Inl\<close> the value it throws), the \<^verbatim>\<open>exports\<close> object of the plugin's own module, the template engine
  (\<^verbatim>\<open>Handlebars.compile(src)(data)\<close> over the registered partials) and the source text
  \<^verbatim>\<open>String(f)\<close> of a function.
\<close>

record world =
  fs_listing :: "path \<Rightarrow> path list"
  fs_read :: "path \<Rightarrow> string option"
  vm_parse :: "string \<Rightarrow> stmt list option"
  module_require :: "path \<Rightarrow> string \<Rightarrow> js_value + js_value"
  plugin_exports :: "(string \<times> js_value) list"
  hb_render :: "(string \<rightharpoonup> string) \<Rightarrow> string \<Rightarrow> js_value \<Rightarrow> js_error + string"
  fn_text :: "fn_body \<Rightarrow> string"

text \<open>
  \<^verbatim>\<open>glob.sync('**/*' + ext, {cwd})\<close>: the files beneath \<open>cwd\<close> whose name ends in \<open>ext\<close>;
  with the default options no path segment may start with a dot.
\<close>

definition glob_sync :: "world \<Rightarrow> string \<Rightarrow> path \<Rightarrow> path list" where
  "glob_sync w ext cwd = filter (\<lambda>f. ends_with ext f \<and> \<not> hidden f) (fs_listing w cwd)"

section \<open>The sandboxed evaluator\<close>

text \<open>
  The mutable part of a run: the completion value of the script so far (what
  \<^verbatim>\<open>runInContext\<close> returns), the \<^verbatim>\<open>exports\<close> property of the per-file \<^verbatim>\<open>Module\<close>
  bound to \<^verbatim>\<open>module\<close> (line 137), and the properties of the object bound to
  \<^verbatim>\<open>exports\<close> (line 138).
\<close>

record vm_state =
  completion :: js_value
  mod_exports :: js_value
  exports_obj :: "(string \<times> js_value) list"

text \<open>The \<^verbatim>\<open>require\<close> function placed in the context (lines 139-146).\<close>

definition sandbox_require :: "world \<Rightarrow> path \<Rightarrow> path \<Rightarrow> string \<Rightarrow> js_value + js_value" where
  "sandbox_require w file dirname request =
     (if matches_relative request then module_require w file (dirname @ ''/'' @ request)
      else module_require w file request)"

fun exec_stmt :: "(string \<Rightarrow> js_value + js_value) \<Rightarrow> stmt \<Rightarrow> vm_state \<Rightarrow> js_error + vm_state" where
  "exec_stmt req (AssignModuleExports v) st = Inr (st\<lparr>mod_exports := v, completion := v\<rparr>)"
| "exec_stmt req (AssignExportsProp k v) st =
     Inr (st\<lparr>exports_obj := (k, v) # filter (\<lambda>p. fst p \<noteq> k) (exports_obj st), completion := v\<rparr>)"
| "exec_stmt req (RequireCall r) st =
     (case req r of Inl e \<Rightarrow> Inl (Thrown e) | Inr v \<Rightarrow> Inr (st\<lparr>completion := v\<rparr>))"
| "exec_stmt req (Expression v) st = Inr (st\<lparr>completion := v\<rparr>)"
| "exec_stmt req Declaration st = Inr st"
| "exec_stmt req (ThrowStmt e) st = Inl (Thrown e)"

fun runInContext :: "(string \<Rightarrow> js_value + js_value) \<Rightarrow> stmt list \<Rightarrow> vm_state \<Rightarrow> js_error + vm_state" where
  "runInContext req [] st = Inr st"
| "runInContext req (s # ss) st =
     (case exec_stmt req s st of Inl e \<Rightarrow> Inl e | Inr st' \<Rightarrow> runInContext req ss st')"

text \<open>
  Lines 130-154: read the file, create the module and the context, compile and run.
  The context binds \<^verbatim>\<open>module\<close> to the fresh module (whose \<^verbatim>\<open>exports\<close> is a new empty
  object) and \<^verbatim>\<open>exports\<close> to the free variable \<^verbatim>\<open>exports\<close> of \<^verbatim>\<open>index.js\<close>, the
  plugin module's own exports object.  Its other bindings (\<^verbatim>\<open>SPP\<close>, \<^verbatim>\<open>__filename\<close>,
  \<^verbatim>\<open>__dirname\<close>) are constants that no statement form of the model reads; nor does one
  read the exports object, so what a script writes there is not carried to the next run.
\<close>

definition run_page_script :: "world \<Rightarrow> path \<Rightarrow> js_error + vm_state" where
  "run_page_script w file =
     (case fs_read w file of
        None \<Rightarrow> Inl (IOError file)
      | Some source \<Rightarrow>
          (case vm_parse w source of
             None \<Rightarrow> Inl (SyntaxError file)
           | Some script \<Rightarrow>
               runInContext (sandbox_require w file (path_dirname file)) script
                 \<lparr>completion = JUndefined, mod_exports = JObject [],
                  exports_obj = plugin_exports w\<rparr>))"

text \<open>
  Line 155-157:
  \<^verbatim>\<open>if (typeof newSource === 'object' && newSource.__esModule && newSource.default)\<close>.
\<close>

definition unwrap_default :: "js_value \<Rightarrow> js_error + js_value" where
  "unwrap_default v =
     (if typeof v = ''object'' then
        (case get_prop v ''__esModule'' of
           Inl e \<Rightarrow> Inl e
         | Inr m \<Rightarrow>
             if truthy m then
               (case get_prop v ''default'' of
                  Inl e \<Rightarrow> Inl e
                | Inr d \<Rightarrow> Inr (if truthy d then d else v))
             else Inr v)
      else Inr v)"

definition evaluateCompilationResult :: "world \<Rightarrow> path \<Rightarrow> js_error + fn_body" where
  "evaluateCompilationResult w file =
     (if file = [] then Inl (PluginError ''The file is empty'')
      else
        (case run_page_script w file of
           Inl e \<Rightarrow> Inl e
         | Inr st \<Rightarrow>
             (case unwrap_default (completion st) of
                Inl e \<Rightarrow> Inl e
              | Inr newSource \<Rightarrow>
                  (case newSource of
                     JFunction f \<Rightarrow> Inr f
                   | _ \<Rightarrow> Inl (PluginError ''Source not produce an HTML'')))))"

section \<open>The build pass\<close>

text \<open>The constructor's fields (lines 19-22); \<open>concurrency\<close> is \<^verbatim>\<open>options.concurrency\<close>.\<close>

record plugin =
  componentsDir :: path
  pagesDir :: path
  destDir :: path
  concurrency :: "nat option"

text \<open>
  The limiter made by \<^verbatim>\<open>pLimit(n)\<close>: its bound, the tasks running and waiting, and a
  count of every task it was ever handed (a task is handed over by calling the limiter
  with it).
\<close>

record limiter =
  limiter_concurrency :: nat
  activeCount :: nat
  pendingCount :: nat
  submitted :: nat

definition pLimit :: "nat \<Rightarrow> limiter" where
  "pLimit n = \<lparr>limiter_concurrency = n, activeCount = 0, pendingCount = 0, submitted = 0\<rparr>"

text \<open>Line 27: \<^verbatim>\<open>pLimit(this.options.concurrency || 100)\<close>; \<^verbatim>\<open>0\<close> is falsy.\<close>

definition apply_limit :: "plugin \<Rightarrow> limiter" where
  "apply_limit p = pLimit (case concurrency p of None \<Rightarrow> 100 | Some c \<Rightarrow> if c = 0 then 100 else c)"

datatype log_entry = Log string | LogError js_error

record asset =
  source :: string
  created :: bool

record page =
  name :: string
  fn :: fn_body

record rendered_page =
  filename :: string
  absoluteFilename :: path
  html :: string

text \<open>
  What a pass reads and writes: the partials registered with Handlebars (process-wide),
  the limiter of \<^verbatim>\<open>apply\<close>, and of the compilation its assets, its log and its file
  dependencies.
\<close>

record build_state =
  partials :: "string \<rightharpoonup> string"
  limit :: limiter
  assets :: "string \<rightharpoonup> asset"
  logged :: "log_entry list"
  fileDependencies :: "path set"

text \<open>
  The handler either reaches \<^verbatim>\<open>callback()\<close> (line 94) or an exception leaves the
  \<^verbatim>\<open>async\<close> function first: its promise is rejected and the callback is never called.
\<close>

datatype outcome = Completed build_state | Rejected js_error build_state

fun callback_called :: "outcome \<Rightarrow> bool" where
  "callback_called (Completed st) = True"
| "callback_called (Rejected e st) = False"

fun final_state :: "outcome \<Rightarrow> build_state" where
  "final_state (Completed st) = st"
| "final_state (Rejected e st) = st"

definition add_log :: "log_entry list \<Rightarrow> build_state \<Rightarrow> build_state" where
  "add_log es st = st\<lparr>logged := logged st @ es\<rparr>"

text \<open>Lines 42-49, for one fragment file and for the list \<^verbatim>\<open>glob.sync\<close> returns.\<close>

definition load_component :: "plugin \<Rightarrow> world \<Rightarrow> path \<Rightarrow> build_state \<Rightarrow> js_error + build_state" where
  "load_component p w file st =
     (case fs_read w (path_resolve (componentsDir p) file) of
        None \<Rightarrow> Inl (IOError (path_resolve (componentsDir p) file))
      | Some content \<Rightarrow>
          if content = [] then Inr st
          else
            (case match_prefix_without (CHR ''/'') file of
               None \<Rightarrow> Inl (TypeError ''0'')
             | Some m \<Rightarrow>
                 Inr (add_log [Log (''Loaded component: '' @ m)]
                        (st\<lparr>partials := (partials st)(m \<mapsto> content)\<rparr>))))"

fun load_components :: "plugin \<Rightarrow> world \<Rightarrow> path list \<Rightarrow> build_state \<Rightarrow> js_error \<times> build_state + build_state" where
  "load_components p w [] st = Inr st"
| "load_components p w (file # files) st =
     (case load_component p w file st of
        Inl e \<Rightarrow> Inl (e, st)
      | Inr st' \<Rightarrow> load_components p w files st')"

text \<open>
  Lines 52-66, for one page file: the page (or nothing) and what is logged.  Both
  \<^verbatim>\<open>undefined\<close> (line 53) and \<^verbatim>\<open>null\<close> (line 65) count as no page for the test
  \<^verbatim>\<open>page == null\<close> of lines 70 and 82.
\<close>

definition read_page :: "plugin \<Rightarrow> world \<Rightarrow> path \<Rightarrow> page option \<times> log_entry list" where
  "read_page p w file =
     (if startsWith_underscore file then (None, [])
      else
        (case evaluateCompilationResult w (path_resolve (pagesDir p) file) of
           Inl e \<Rightarrow> (None, [LogError e])
         | Inr f \<Rightarrow>
             (case match_prefix_without (CHR ''.'') file of
                None \<Rightarrow> (None, [LogError (TypeError ''0'')])
              | Some m \<Rightarrow> (Some \<lparr>name = m, fn = f\<rparr>, []))))"

definition read_pages :: "plugin \<Rightarrow> world \<Rightarrow> path list \<Rightarrow> page option list \<times> log_entry list" where
  "read_pages p w files =
     (map (\<lambda>file. fst (read_page p w file)) files,
      concat (map (\<lambda>file. snd (read_page p w file)) files))"

text \<open>The string a template literal inserts for a value.\<close>

fun to_string :: "world \<Rightarrow> js_value \<Rightarrow> string" where
  "to_string w JUndefined = ''undefined''"
| "to_string w JNull = ''null''"
| "to_string w (JBool b) = (if b then ''true'' else ''false'')"
| "to_string w (JString s) = s"
| "to_string w (JObject ps) = ''[object Object]''"
| "to_string w (JFunction f) = fn_text w f"

text \<open>Lines 69-78, for one entry of \<^verbatim>\<open>pages\<close> and for the list; nothing is caught here.\<close>

definition render_page :: "plugin \<Rightarrow> world \<Rightarrow> (string \<rightharpoonup> string) \<Rightarrow> page option \<Rightarrow> js_error + rendered_page option" where
  "render_page p w parts pg =
     (case pg of
        None \<Rightarrow> Inr None
      | Some page \<Rightarrow>
          (case fn page of
             Throws e \<Rightarrow> Inl (Thrown e)
           | Returns pageData \<Rightarrow>
               (case get_prop pageData ''component'' of
                  Inl e \<Rightarrow> Inl e
                | Inr c \<Rightarrow>
                    (case hb_render w parts (''{{> '' @ to_string w c @ ''}}'') pageData of
                       Inl e \<Rightarrow> Inl e
                     | Inr h \<Rightarrow>
                         Inr (Some \<lparr>filename = name page @ ''.html'',
                                    absoluteFilename = path_resolve (destDir p) (name page) @ ''.html'',
                                    html = h\<rparr>)))))"

fun render_pages :: "plugin \<Rightarrow> world \<Rightarrow> (string \<rightharpoonup> string) \<Rightarrow> page option list \<Rightarrow> js_error + rendered_page option list" where
  "render_pages p w parts [] = Inr []"
| "render_pages p w parts (pg # pgs) =
     (case render_page p w parts pg of
        Inl e \<Rightarrow> Inl e
      | Inr r \<Rightarrow>
          (case render_pages p w parts pgs of
             Inl e \<Rightarrow> Inl e
           | Inr rs \<Rightarrow> Inr (r # rs)))"

text \<open>Lines 81-90, for one entry of \<^verbatim>\<open>pagesRend\<close> and for the list.\<close>

definition emit_page :: "rendered_page option \<Rightarrow> build_state \<Rightarrow> build_state" where
  "emit_page r st =
     (case r of
        None \<Rightarrow> st
      | Some page \<Rightarrow>
          (case assets st (filename page) of
             Some existingAsset \<Rightarrow> st
           | None \<Rightarrow> st\<lparr>assets := (assets st)(filename page \<mapsto> \<lparr>source = html page, created = True\<rparr>)\<rparr>))"

definition emit_pages :: "rendered_page option list \<Rightarrow> build_state \<Rightarrow> build_state" where
  "emit_pages rs st = fold emit_page rs st"

text \<open>Lines 52-94, given the page files found.\<close>

definition build_pages :: "plugin \<Rightarrow> world \<Rightarrow> path list \<Rightarrow> build_state \<Rightarrow> outcome" where
  "build_pages p w files st =
     (let st' = add_log (snd (read_pages p w files)) st in
      case render_pages p w (partials st') (fst (read_pages p w files)) of
        Inl e \<Rightarrow> Rejected e st'
      | Inr pagesRend \<Rightarrow>
          Completed (add_log [Log ''Finished creating pages''] (emit_pages pagesRend st')))"

text \<open>The \<^verbatim>\<open>processAssets\<close> handler, lines 38-95.\<close>

definition processAssets :: "plugin \<Rightarrow> world \<Rightarrow> build_state \<Rightarrow> outcome" where
  "processAssets p w st =
     (case load_components p w (glob_sync w ''.hbs'' (componentsDir p))
             (add_log [Log ''Starting creating static pages....''] st) of
        Inl (e, st') \<Rightarrow> Rejected e st'
      | Inr st' \<Rightarrow> build_pages p w (glob_sync w ''.js'' (pagesDir p)) st')"

text \<open>The \<^verbatim>\<open>afterCompile\<close> handler, lines 109-116.\<close>

definition afterCompile :: "plugin \<Rightarrow> world \<Rightarrow> build_state \<Rightarrow> build_state" where
  "afterCompile p w st =
     st\<lparr>fileDependencies :=
          fileDependencies st
          \<union> set (map (path_resolve (pagesDir p)) (glob_sync w ''.js'' (pagesDir p)))
          \<union> set (map (path_resolve (componentsDir p)) (glob_sync w ''.hbs'' (componentsDir p)))\<rparr>"

text \<open>
  One pass of a compilation: the compilation is sealed, and \<^verbatim>\<open>afterCompile\<close> fires,
  only once the handler has called back.
\<close>

definition build_pass :: "plugin \<Rightarrow> world \<Rightarrow> build_state \<Rightarrow> outcome" where
  "build_pass p w st =
     (case processAssets p w st of
        Completed st' \<Rightarrow> Completed (afterCompile p w st')
      | Rejected e st' \<Rightarrow> Rejected e st')"

text \<open>The state a first compilation starts from, given the assets already present.\<close>

definition initial_state :: "plugin \<Rightarrow> (string \<rightharpoonup> asset) \<Rightarrow> build_state" where
  "initial_state p existing =
     \<lparr>partials = Map.empty, limit = apply_limit p, assets = existing, logged = [],
      fileDependencies = {}\<rparr>"

section \<open>A reference template engine and a sample site\<close>

text \<open>
  The worked examples need a concrete engine.  This one covers the three constructs
  they use, as Handlebars treats them: literal text, \<^verbatim>\<open>{{key}}\<close> (the string field of the
  data, HTML-escaped; an absent field gives the empty string) and \<^verbatim>\<open>{{> name}}\<close> (the
  registered partial of that name rendered with the same data, an error when none is
  registered).  Partials may nest up to a given depth.
\<close>

datatype token = TText string | TVar string | TPartial string

definition trim :: "string \<Rightarrow> string" where
  "trim s = rev (dropWhile (\<lambda>c. c = CHR '' '') (rev (dropWhile (\<lambda>c. c = CHR '' '') s)))"

definition text_token :: "string \<Rightarrow> token list" where
  "text_token acc = (if acc = [] then [] else [TText (rev acc)])"

definition tag_token :: "string \<Rightarrow> token" where
  "tag_token body =
     (case body of
        [] \<Rightarrow> TVar []
      | c # cs \<Rightarrow> if c = CHR ''>'' then TPartial (trim cs) else TVar (trim body))"

fun tokenize :: "bool \<Rightarrow> string \<Rightarrow> string \<Rightarrow> token list option" where
  "tokenize in_tag acc [] = (if in_tag then None else Some (text_token acc))"
| "tokenize in_tag acc [c] = tokenize in_tag (c # acc) []"
| "tokenize in_tag acc (c # d # cs) =
     (if \<not> in_tag \<and> c = CHR ''{'' \<and> d = CHR ''{'' then
        map_option (\<lambda>ts. text_token acc @ ts) (tokenize True [] cs)
      else if in_tag \<and> c = CHR ''}'' \<and> d = CHR ''}'' then
        map_option (\<lambda>ts. tag_token (rev acc) # ts) (tokenize False [] cs)
      else tokenize in_tag (c # acc) (d # cs))"

definition escape_char :: "char \<Rightarrow> string" where
  "escape_char c =
     (if c = CHR ''&'' then ''&amp;''
      else if c = CHR ''<'' then ''&lt;''
      else if c = CHR ''>'' then ''&gt;''
      else if c = CHR 0x22 then ''&quot;''
      else if c = CHR 0x27 then ''&#x27;''
      else if c = CHR 0x60 then ''&#x60;''
      else if c = CHR ''='' then ''&#x3D;''
      else [c])"

definition field_text :: "js_value \<Rightarrow> string \<Rightarrow> js_error + string" where
  "field_text data k =
     (case get_prop data k of
        Inl e \<Rightarrow> Inr []
      | Inr JUndefined \<Rightarrow> Inr []
      | Inr JNull \<Rightarrow> Inr []
      | Inr (JString s) \<Rightarrow> Inr (concat (map escape_char s))
      | Inr v \<Rightarrow> Inl (TemplateError (''Unsupported field '' @ k)))"

fun render_tokens :: "nat \<Rightarrow> (string \<rightharpoonup> string) \<Rightarrow> js_value \<Rightarrow> token list \<Rightarrow> js_error + string" where
  "render_tokens depth parts data [] = Inr []"
| "render_tokens depth parts data (TText s # ts) =
     (case render_tokens depth parts data ts of
        Inl e \<Rightarrow> Inl e
      | Inr r \<Rightarrow> Inr (s @ r))"
| "render_tokens depth parts data (TVar k # ts) =
     (case field_text data k of
        Inl e \<Rightarrow> Inl e
      | Inr s \<Rightarrow>
          (case render_tokens depth parts data ts of
             Inl e \<Rightarrow> Inl e
           | Inr r \<Rightarrow> Inr (s @ r)))"
| "render_tokens 0 parts data (TPartial n # ts) =
     Inl (TemplateError ''Maximum call stack size exceeded'')"
| "render_tokens (Suc depth) parts data (TPartial n # ts) =
     (case parts n of
        None \<Rightarrow> Inl (TemplateError (''The partial '' @ n @ '' could not be found''))
      | Some src \<Rightarrow>
          (case tokenize False [] src of
             None \<Rightarrow> Inl (TemplateError ''Parse error'')
           | Some toks \<Rightarrow>
               (case render_tokens depth parts data toks of
                  Inl e \<Rightarrow> Inl e
                | Inr s \<Rightarrow>
                    (case render_tokens (Suc depth) parts data ts of
                       Inl e \<Rightarrow> Inl e
                     | Inr r \<Rightarrow> Inr (s @ r)))))"

definition reference_engine :: "nat \<Rightarrow> (string \<rightharpoonup> string) \<Rightarrow> string \<Rightarrow> js_value \<Rightarrow> js_error + string" where
  "reference_engine depth parts src data =
     (case tokenize False [] src of
        None \<Rightarrow> Inl (TemplateError ''Parse error'')
      | Some toks \<Rightarrow> render_tokens depth parts data toks)"

text \<open>
  The sample files: the fragment and the page of the worked example, a page whose
  function throws, page scripts with a statement after the export, scripts whose value is
  no function, a script with declarations around its export, one that calls
  \<^verbatim>\<open>require\<close> and one that exports a transpiled ES module wrapper.  \<open>sample_parse\<close> gives the statements of each, \<open>sample_require\<close> the one
  module the loader finds.
\<close>

definition card_hbs :: string where
  "card_hbs = ''<div>{{title}}</div>''"

definition home_js :: string where
  "home_js = ''module.exports = () => ({ component: 'card', title: 'Hi' });''"

definition broken_js :: string where
  "broken_js = ''module.exports = () => { throw 'boom'; };''"

definition trailing_js :: string where
  "trailing_js = ''module.exports = () => ({ component: 'card', title: 'Hi' }); 'done';''"

definition exports_js :: string where
  "exports_js = ''module.exports = () => ({ component: 'card', title: 'Hi' }); exports.ready = true;''"

definition text_js :: string where
  "text_js = ''module.exports = 'plain text';''"

definition null_js :: string where
  "null_js = ''null;''"

definition declared_js :: string where
  "declared_js = ''var t = 'Hi'; module.exports = () => ({ component: 'card', title: t }); function unused() {}''"

definition require_js :: string where
  "require_js = ''require('./_helper');''"

definition ready_js :: string where
  "ready_js = ''exports.ready = true;''"

definition esm_js :: string where
  "esm_js = ''module.exports = { __esModule: true, default: () => ({ component: 'card', title: 'Hi' }) };''"

definition home_fn :: fn_body where
  "home_fn = Returns (JObject [(''component'', JString ''card''), (''title'', JString ''Hi'')])"

definition sample_parse :: "string \<Rightarrow> stmt list option" where
  "sample_parse src =
     (if src = home_js then Some [AssignModuleExports (JFunction home_fn)]
      else if src = broken_js then Some [AssignModuleExports (JFunction (Throws (JString ''boom'')))]
      else if src = trailing_js then
        Some [AssignModuleExports (JFunction home_fn), Expression (JString ''done'')]
      else if src = exports_js then
        Some [AssignModuleExports (JFunction home_fn), AssignExportsProp ''ready'' (JBool True)]
      else if src = text_js then Some [AssignModuleExports (JString ''plain text'')]
      else if src = null_js then Some [Expression JNull]
      else if src = declared_js then
        Some [Declaration, AssignModuleExports (JFunction home_fn), Declaration]
      else if src = require_js then Some [RequireCall ''./_helper'']
      else if src = ready_js then Some [AssignExportsProp ''ready'' (JBool True)]
      else if src = esm_js then
        Some [AssignModuleExports
                (JObject [(''__esModule'', JBool True), (''default'', JFunction home_fn)])]
      else None)"

definition sample_require :: "path \<Rightarrow> string \<Rightarrow> js_value + js_value" where
  "sample_require file request =
     (if request = ''/site/pages/./_helper'' then Inr (JObject [(''title'', JString ''Hi'')])
      else Inl (JString (''Cannot find module '' @ request)))"

definition sample_listing :: "path list \<Rightarrow> path list \<Rightarrow> path \<Rightarrow> path list" where
  "sample_listing components pages dir =
     (if dir = ''/site/components'' then components
      else if dir = ''/site/pages'' then pages
      else [])"

definition sample_world :: "path list \<Rightarrow> path list \<Rightarrow> (path \<times> string) list \<Rightarrow> world" where
  "sample_world components pages files =
     \<lparr>fs_listing = sample_listing components pages,
      fs_read = map_of files,
      vm_parse = sample_parse,
      module_require = sample_require,
      plugin_exports = [],
      hb_render = reference_engine 8,
      fn_text = (\<lambda>f. ''function'')\<rparr>"

definition sample_plugin :: "nat option \<Rightarrow> plugin" where
  "sample_plugin c =
     \<lparr>componentsDir = ''/site/components'', pagesDir = ''/site/pages'', destDir = ''/site/dist'',
      concurrency = c\<rparr>"

text \<open>A compilation that already holds \<^verbatim>\<open>home.html\<close>, and a list of rendered pages.\<close>

definition old_home :: asset where
  "old_home = \<lparr>source = ''<p>old</p>'', created = False\<rparr>"

definition sample_state :: build_state where
  "sample_state = initial_state (sample_plugin None) [''home.html'' \<mapsto> old_home]"

definition sample_rendered :: "rendered_page option list" where
  "sample_rendered =
     [Some \<lparr>filename = ''home.html'', absoluteFilename = ''/site/dist/home.html'', html = ''<p>new</p>''\<rparr>,
      Some \<lparr>filename = ''about.html'', absoluteFilename = ''/site/dist/about.html'', html = ''<p>first</p>''\<rparr>,
      None,
      Some \<lparr>filename = ''about.html'', absoluteFilename = ''/site/dist/about.html'', html = ''<p>second</p>''\<rparr>]"

text \<open>Sites laid out under \<^verbatim>\<open>/site\<close>: fragment and page files given with their text.\<close>

definition site :: "(path \<times> string) list \<Rightarrow> (path \<times> string) list \<Rightarrow> world" where
  "site components pages =
     sample_world (map fst components) (map fst pages)
       (map (\<lambda>(f, c). (''/site/components/'' @ f, c)) components
        @ map (\<lambda>(f, c). (''/site/pages/'' @ f, c)) pages)"

definition card_site :: world where
  "card_site = site [(''card/card.hbs'', card_hbs)] [(''home.js'', home_js)]"

definition flat_site :: world where
  "flat_site = site [(''card.hbs'', card_hbs)] [(''home.js'', home_js)]"

definition broken_site :: world where
  "broken_site = site [(''card/card.hbs'', card_hbs)] [(''home.js'', home_js), (''broken.js'', broken_js)]"

definition ten_pages :: "path list" where
  "ten_pages = [''p0.js'', ''p1.js'', ''p2.js'', ''p3.js'', ''p4.js'', ''p5.js'', ''p6.js'',
                ''p7.js'', ''p8.js'', ''p9.js'']"

definition ten_site :: world where
  "ten_site = site [(''card/card.hbs'', card_hbs)] (map (\<lambda>f. (f, home_js)) ten_pages)"

definition nested_site :: world where
  "nested_site =
     site [(''card/card.hbs'', card_hbs)]
       [(''_helper.js'', home_js), (''shared/_helper.js'', home_js), (''blog/post.js'', home_js)]"

definition mixed_site :: world where
  "mixed_site =
     site [(''card/card.hbs'', card_hbs), (''card/card.css'', ''div { margin: 0 }'')]
       [(''home.js'', home_js), (''_helper.js'', home_js), (''plain.js'', text_js),
        (''data.json'', ''{}'')]"

definition script_site :: world where
  "script_site =
     site [(''card/card.hbs'', card_hbs)]
       [(''home.js'', home_js), (''trailing.js'', trailing_js), (''exports.js'', exports_js),
        (''plain.js'', text_js), (''null.js'', null_js), (''declared.js'', declared_js),
        (''require.js'', require_js), (''ready.js'', ready_js),
        (''esm.js'', esm_js)]"

text \<open>
  The page name in the specification's words: the base name of the page file up to its
  first dot.
\<close>

definition basename :: "path \<Rightarrow> string" where
  "basename f = rev (takeWhile (\<lambda>c. c \<noteq> CHR ''/'') (rev f))"

definition spec_page_name :: "path \<Rightarrow> string" where
  "spec_page_name f = takeWhile (\<lambda>c. c \<noteq> CHR ''.'') (basename f)"

section \<open>Frame and bookkeeping lemmas\<close>

lemma add_log_fields [simp]:
  "partials (add_log es st) = partials st"
  "limit (add_log es st) = limit st"
  "assets (add_log es st) = assets st"
  "fileDependencies (add_log es st) = fileDependencies st"
  "logged (add_log es st) = logged st @ es"
  by (simp_all add: add_log_def)

lemma load_component_frame:
  assumes "load_component p w file st = Inr st'"
  shows "limit st' = limit st \<and> assets st' = assets st \<and> fileDependencies st' = fileDependencies st"
  using assms
  by (auto simp: load_component_def split: option.splits if_splits)

lemma load_components_frame:
  "load_components p w files st = Inr st' \<or> load_components p w files st = Inl (e, st')
   \<Longrightarrow> limit st' = limit st \<and> assets st' = assets st \<and> fileDependencies st' = fileDependencies st"
proof (induction files arbitrary: st)
  case Nil
  then show ?case by auto
next
  case (Cons f fs)
  show ?case
  proof (cases "load_component p w f st")
    case (Inl err)
    with Cons.prems show ?thesis by auto
  next
    case (Inr st1)
    with Cons.prems have "load_components p w fs st1 = Inr st' \<or> load_components p w fs st1 = Inl (e, st')"
      by simp
    from Cons.IH[OF this] load_component_frame[OF Inr] show ?thesis by simp
  qed
qed

lemma emit_page_frame [simp]:
  "partials (emit_page r st) = partials st"
  "limit (emit_page r st) = limit st"
  "logged (emit_page r st) = logged st"
  "fileDependencies (emit_page r st) = fileDependencies st"
  by (simp_all add: emit_page_def split: option.splits)

lemma emit_pages_frame [simp]:
  "partials (emit_pages rs st) = partials st"
  "limit (emit_pages rs st) = limit st"
  "logged (emit_pages rs st) = logged st"
  "fileDependencies (emit_pages rs st) = fileDependencies st"
  unfolding emit_pages_def
  by (induction rs arbitrary: st) simp_all

lemma emit_page_keep:
  "assets st n = Some a \<Longrightarrow> assets (emit_page r st) n = Some a"
  by (auto simp: emit_page_def split: option.splits)

lemma emit_pages_keep:
  "assets st n = Some a \<Longrightarrow> assets (emit_pages rs st) n = Some a"
  unfolding emit_pages_def
  by (induction rs arbitrary: st) (simp_all add: emit_page_keep)

lemma emit_page_other:
  "(case r of None \<Rightarrow> True | Some q \<Rightarrow> filename q \<noteq> n) \<Longrightarrow> assets (emit_page r st) n = assets st n"
  by (auto simp: emit_page_def split: option.splits)

lemma emit_pages_first:
  "assets st n = None \<Longrightarrow>
   find (\<lambda>r. case r of None \<Rightarrow> False | Some q \<Rightarrow> filename q = n) rs = Some (Some pg) \<Longrightarrow>
   assets (emit_pages rs st) n = Some \<lparr>source = html pg, created = True\<rparr>"
proof (induction rs arbitrary: st)
  case Nil
  then show ?case by simp
next
  case (Cons r rs)
  show ?case
  proof (cases "case r of None \<Rightarrow> False | Some q \<Rightarrow> filename q = n")
    case True
    with Cons.prems have r: "r = Some pg" by simp
    with True have "filename pg = n" by simp
    with Cons.prems(1) r have "assets (emit_page r st) n = Some \<lparr>source = html pg, created = True\<rparr>"
      by (simp add: emit_page_def)
    from emit_pages_keep[OF this] show ?thesis by (simp add: emit_pages_def)
  next
    case False
    then have "assets (emit_page r st) n = assets st n"
      by (intro emit_page_other) (auto split: option.splits)
    with Cons.prems(1) have "assets (emit_page r st) n = None" by simp
    moreover from False Cons.prems(2)
    have "find (\<lambda>r. case r of None \<Rightarrow> False | Some q \<Rightarrow> filename q = n) rs = Some (Some pg)" by simp
    ultimately have "assets (emit_pages rs (emit_page r st)) n = Some \<lparr>source = html pg, created = True\<rparr>"
      by (rule Cons.IH)
    then show ?thesis by (simp add: emit_pages_def)
  qed
qed

lemma emit_pages_none:
  "assets st n = None \<Longrightarrow>
   find (\<lambda>r. case r of None \<Rightarrow> False | Some q \<Rightarrow> filename q = n) rs = None \<Longrightarrow>
   assets (emit_pages rs st) n = None"
proof (induction rs arbitrary: st)
  case Nil
  then show ?case by (simp add: emit_pages_def)
next
  case (Cons r rs)
  from Cons.prems(2) have nr: "case r of None \<Rightarrow> True | Some q \<Rightarrow> filename q \<noteq> n"
    by (cases r) (auto split: if_splits)
  from Cons.prems(2) have rest: "find (\<lambda>r. case r of None \<Rightarrow> False | Some q \<Rightarrow> filename q = n) rs = None"
    by (cases r) (auto split: if_splits)
  from emit_page_other[OF nr] Cons.prems(1) have "assets (emit_page r st) n = None" by simp
  from Cons.IH[OF this rest] show ?case by (simp add: emit_pages_def)
qed

lemma build_pages_frame:
  "limit (final_state (build_pages p w files st)) = limit st"
  "fileDependencies (final_state (build_pages p w files st)) = fileDependencies st"
  by (simp_all add: build_pages_def Let_def split: sum.splits)

lemma processAssets_frame:
  "limit (final_state (processAssets p w st)) = limit st
   \<and> fileDependencies (final_state (processAssets p w st)) = fileDependencies st"
proof (cases "load_components p w (glob_sync w ''.hbs'' (componentsDir p))
             (add_log [Log ''Starting creating static pages....''] st)")
  case (Inl a)
  obtain e st' where a: "a = (e, st')" by (cases a)
  from Inl a load_components_frame[of p w _ _ st' e]
  have "limit st' = limit st \<and> fileDependencies st' = fileDependencies st"
    by fastforce
  with Inl a show ?thesis
    by (simp add: processAssets_def)
next
  case (Inr st')
  from Inr load_components_frame[of p w _ _ st']
  have "limit st' = limit st \<and> fileDependencies st' = fileDependencies st"
    by fastforce
  with Inr show ?thesis
    by (simp add: processAssets_def build_pages_frame)
qed

lemma build_pages_assets_keep:
  "assets st n = Some a \<Longrightarrow> assets (final_state (build_pages p w files st)) n = Some a"
  by (simp add: build_pages_def Let_def emit_pages_keep split: sum.splits)

lemma processAssets_assets_keep:
  assumes "assets st n = Some a"
  shows "assets (final_state (processAssets p w st)) n = Some a"
proof (cases "load_components p w (glob_sync w ''.hbs'' (componentsDir p))
             (add_log [Log ''Starting creating static pages....''] st)")
  case (Inl b)
  obtain e st' where b: "b = (e, st')" by (cases b)
  from Inl b load_components_frame[of p w _ _ st' e]
  have "assets st' = assets st" by fastforce
  with Inl b assms show ?thesis
    by (simp add: processAssets_def)
next
  case (Inr st')
  from Inr load_components_frame[of p w _ _ st']
  have "assets st' = assets st" by fastforce
  with Inr assms show ?thesis
    by (simp add: processAssets_def build_pages_assets_keep)
qed

section \<open>Evaluating the sample site\<close>

lemmas sample_defs = site_def sample_world_def sample_listing_def sample_plugin_def

lemma sample_world_fields [simp]:
  "fs_listing (sample_world cs ps fl) = sample_listing cs ps"
  "fs_read (sample_world cs ps fl) = map_of fl"
  "vm_parse (sample_world cs ps fl) = sample_parse"
  "plugin_exports (sample_world cs ps fl) = []"
  "hb_render (sample_world cs ps fl) = reference_engine 8"
  "module_require (sample_world cs ps fl) = sample_require"
  by (simp_all add: sample_world_def)

lemma sample_plugin_fields [simp]:
  "componentsDir (sample_plugin c) = ''/site/components''"
  "pagesDir (sample_plugin c) = ''/site/pages''"
  "destDir (sample_plugin c) = ''/site/dist''"
  "concurrency (sample_plugin c) = c"
  by (simp_all add: sample_plugin_def)

lemma parse_home: "sample_parse home_js = Some [AssignModuleExports (JFunction home_fn)]"
  by (simp add: sample_parse_def)

lemma parse_broken:
  "sample_parse broken_js = Some [AssignModuleExports (JFunction (Throws (JString ''boom'')))]"
  by (simp add: sample_parse_def home_js_def broken_js_def)

lemma parse_trailing:
  "sample_parse trailing_js
     = Some [AssignModuleExports (JFunction home_fn), Expression (JString ''done'')]"
  by (simp add: sample_parse_def home_js_def broken_js_def trailing_js_def)

lemma parse_exports:
  "sample_parse exports_js
     = Some [AssignModuleExports (JFunction home_fn), AssignExportsProp ''ready'' (JBool True)]"
  by (simp add: sample_parse_def home_js_def broken_js_def trailing_js_def exports_js_def)

lemma parse_text:
  "sample_parse text_js = Some [AssignModuleExports (JString ''plain text'')]"
  by (simp add: sample_parse_def home_js_def broken_js_def trailing_js_def exports_js_def text_js_def)

lemma evaluate_home:
  "map_of fl f = Some home_js \<Longrightarrow> f \<noteq> [] \<Longrightarrow>
   evaluateCompilationResult (sample_world cs ps fl) f = Inr home_fn"
  by (simp add: evaluateCompilationResult_def run_page_script_def parse_home unwrap_default_def)

lemma evaluate_broken:
  "map_of fl f = Some broken_js \<Longrightarrow> f \<noteq> [] \<Longrightarrow>
   evaluateCompilationResult (sample_world cs ps fl) f = Inr (Throws (JString ''boom''))"
  by (simp add: evaluateCompilationResult_def run_page_script_def parse_broken unwrap_default_def)

lemma render_card:
  "reference_engine 8 parts ''{{> card}}'' (JObject [(''component'', JString ''card''), (''title'', JString ''Hi'')])
     = (case parts ''card'' of
          None \<Rightarrow> Inl (TemplateError ''The partial card could not be found'')
        | Some src \<Rightarrow>
            (case tokenize False [] src of
               None \<Rightarrow> Inl (TemplateError ''Parse error'')
             | Some toks \<Rightarrow> render_tokens 7 parts (JObject [(''component'', JString ''card''), (''title'', JString ''Hi'')]) toks))"
  by (simp add: reference_engine_def eval_nat_numeral tag_token_def text_token_def trim_def
      split: option.splits sum.splits)

lemma tokenize_card:
  "tokenize False [] card_hbs = Some [TText ''<div>'', TVar ''title'', TText ''</div>'']"
  by (simp add: card_hbs_def tag_token_def text_token_def trim_def)

lemma render_home_page:
  "parts ''card'' = Some card_hbs \<Longrightarrow>
   render_page (sample_plugin c) (sample_world cs ps fl) parts (Some \<lparr>name = n, fn = home_fn\<rparr>)
     = Inr (Some \<lparr>filename = n @ ''.html'', absoluteFilename = ''/site/dist/'' @ n @ ''.html'',
                  html = ''<div>Hi</div>''\<rparr>)"
  by (simp add: render_page_def home_fn_def render_card tokenize_card field_text_def
      escape_char_def path_resolve_def)

lemma render_home_page_missing:
  "parts ''card'' = None \<Longrightarrow>
   render_page (sample_plugin c) (sample_world cs ps fl) parts (Some \<lparr>name = n, fn = home_fn\<rparr>)
     = Inl (TemplateError ''The partial card could not be found'')"
  by (simp add: render_page_def home_fn_def render_card)


lemma add_log_Nil [simp]: "add_log [] st = st"
  by (simp add: add_log_def)

lemma afterCompile_fields [simp]:
  "partials (afterCompile p w st) = partials st"
  "limit (afterCompile p w st) = limit st"
  "assets (afterCompile p w st) = assets st"
  "logged (afterCompile p w st) = logged st"
  by (simp_all add: afterCompile_def)

lemma build_pass_limit: "limit (final_state (build_pass p w st)) = limit st"
proof (cases "processAssets p w st")
  case (Completed st')
  with processAssets_frame[of p w st] show ?thesis by (simp add: build_pass_def)
next
  case (Rejected e st')
  with processAssets_frame[of p w st] show ?thesis by (simp add: build_pass_def)
qed

lemma load_card:
  "map_of fl ''/site/components/card/card.hbs'' = Some card_hbs \<Longrightarrow>
   load_component (sample_plugin c) (sample_world cs ps fl) ''card/card.hbs'' st
     = Inr (add_log [Log ''Loaded component: card''] (st\<lparr>partials := (partials st)(''card'' \<mapsto> card_hbs)\<rparr>))"
  by (simp add: load_component_def path_resolve_def match_prefix_without_def card_hbs_def)

lemma read_home:
  "map_of fl (''/site/pages/'' @ f) = Some home_js \<Longrightarrow> \<not> startsWith_underscore f \<Longrightarrow>
   match_prefix_without (CHR ''.'') f = Some n \<Longrightarrow>
   read_page (sample_plugin c) (sample_world cs ps fl) f = (Some \<lparr>name = n, fn = home_fn\<rparr>, [])"
  by (simp add: read_page_def path_resolve_def evaluate_home)

lemma ten_site_handler:
  "processAssets (sample_plugin c) ten_site st
     = Completed (add_log [Log ''Finished creating pages'']
         (emit_pages
            (map (\<lambda>n. Some \<lparr>filename = n @ ''.html'', absoluteFilename = ''/site/dist/'' @ n @ ''.html'',
                             html = ''<div>Hi</div>''\<rparr>)
               [''p0'', ''p1'', ''p2'', ''p3'', ''p4'', ''p5'', ''p6'', ''p7'', ''p8'', ''p9''])
            (add_log [Log ''Loaded component: card'']
               ((add_log [Log ''Starting creating static pages....''] st)
                  \<lparr>partials := (partials st)(''card'' \<mapsto> card_hbs)\<rparr>))))"
  by (simp add: processAssets_def glob_sync_def ten_site_def site_def sample_listing_def
      ten_pages_def ends_with_def hidden_def load_card build_pages_def read_pages_def read_home
      match_prefix_without_def render_home_page Let_def)

section \<open>Dependencies\<close>

lemma processAssets_fileDependencies:
  "fileDependencies (final_state (processAssets p w st)) = fileDependencies st"
  using processAssets_frame[of p w st] by simp

lemma glob_sync_set:
  "set (glob_sync w ext dir) = {f \<in> set (fs_listing w dir). ends_with ext f \<and> \<not> hidden f}"
  by (auto simp: glob_sync_def)

section \<open>More of the sample site\<close>

lemma evaluate_text:
  "map_of fl f = Some text_js \<Longrightarrow> f \<noteq> [] \<Longrightarrow>
   evaluateCompilationResult (sample_world cs ps fl) f
     = Inl (PluginError ''Source not produce an HTML'')"
  by (simp add: evaluateCompilationResult_def run_page_script_def parse_text unwrap_default_def)

lemma read_text:
  "map_of fl (''/site/pages/'' @ f) = Some text_js \<Longrightarrow> \<not> startsWith_underscore f \<Longrightarrow>
   read_page (sample_plugin c) (sample_world cs ps fl) f
     = (None, [LogError (PluginError ''Source not produce an HTML'')])"
  by (simp add: read_page_def path_resolve_def evaluate_text)

lemma render_page_None [simp]: "render_page p w parts None = Inr None"
  by (simp add: render_page_def)

lemma read_underscore: "startsWith_underscore f \<Longrightarrow> read_page p w f = (None, [])"
  by (simp add: read_page_def)

lemma mixed_site_pages: "glob_sync mixed_site ''.js'' ''/site/pages'' = [''home.js'', ''_helper.js'', ''plain.js'']"
  by (simp add: glob_sync_def mixed_site_def site_def sample_listing_def ends_with_def hidden_def)

lemma mixed_site_components: "glob_sync mixed_site ''.hbs'' ''/site/components'' = [''card/card.hbs'']"
  by (simp add: glob_sync_def mixed_site_def site_def sample_listing_def ends_with_def hidden_def)

lemma mixed_site_handler:
  "processAssets (sample_plugin c) mixed_site st
     = Completed (add_log [Log ''Finished creating pages'']
         (emit_pages
            [Some \<lparr>filename = ''home.html'', absoluteFilename = ''/site/dist/home.html'',
                    html = ''<div>Hi</div>''\<rparr>, None, None]
            (add_log [LogError (PluginError ''Source not produce an HTML'')]
              (add_log [Log ''Loaded component: card'']
               ((add_log [Log ''Starting creating static pages....''] st)
                  \<lparr>partials := (partials st)(''card'' \<mapsto> card_hbs)\<rparr>)))))"
  unfolding processAssets_def sample_plugin_fields mixed_site_pages mixed_site_components
  by (simp add: mixed_site_def site_def load_card build_pages_def read_pages_def read_home
      read_text read_underscore match_prefix_without_def render_home_page Let_def)

section \<open>Running a script\<close>

lemma runInContext_append:
  "runInContext req (a @ b) st
     = (case runInContext req a st of Inl e \<Rightarrow> Inl e | Inr st' \<Rightarrow> runInContext req b st')"
  by (induction a arbitrary: st) (simp_all split: sum.splits)

lemma runInContext_declarations:
  "list_all (\<lambda>s. s = Declaration) ds \<Longrightarrow> runInContext req ds st = Inr st"
  by (induction ds) simp_all

lemma matches_relative_iff:
  "matches_relative r \<longleftrightarrow> prefix ''./'' r \<or> prefix ''../'' r"
proof (cases r)
  case Nil
  then show ?thesis by simp
next
  case (Cons a r1)
  show ?thesis
  proof (cases r1)
    case Nil
    with Cons show ?thesis by simp
  next
    case (Cons b r2)
    with \<open>r = a # r1\<close> show ?thesis
      by (cases r2) auto
  qed
qed

lemma unwrap_default_cases:
  "unwrap_default JNull = Inl (TypeError ''__esModule'')"
  "v \<noteq> JNull \<Longrightarrow> \<exists>r. unwrap_default v = Inr r"
  by (cases v; simp add: unwrap_default_def)+

lemma exec_stmt_error: "exec_stmt req s st = Inl e \<Longrightarrow> \<exists>v. e = Thrown v"
  by (cases s) (auto split: sum.splits)

lemma runInContext_error: "runInContext req ss st = Inl e \<Longrightarrow> \<exists>v. e = Thrown v"
proof (induction ss arbitrary: st)
  case Nil
  then show ?case by simp
next
  case (Cons s ss)
  then show ?case
    by (cases "exec_stmt req s st") (auto dest: exec_stmt_error)
qed

lemma run_page_script_error:
  "run_page_script w f = Inl e \<Longrightarrow> e = IOError f \<or> e = SyntaxError f \<or> (\<exists>v. e = Thrown v)"
  by (auto simp: run_page_script_def split: option.splits dest: runInContext_error)

lemma unwrap_default_error: "unwrap_default v = Inl e \<Longrightarrow> e = TypeError ''__esModule''"
  by (cases v) (auto simp: unwrap_default_def split: if_splits sum.splits)

section \<open>The sample scripts\<close>

lemma parse_null: "sample_parse null_js = Some [Expression JNull]"
  by (simp add: sample_parse_def home_js_def broken_js_def trailing_js_def exports_js_def
      text_js_def null_js_def)

lemma parse_declared:
  "sample_parse declared_js = Some [Declaration, AssignModuleExports (JFunction home_fn), Declaration]"
  by (simp add: sample_parse_def home_js_def broken_js_def trailing_js_def exports_js_def
      text_js_def null_js_def declared_js_def)

lemma parse_require: "sample_parse require_js = Some [RequireCall ''./_helper'']"
  by (simp add: sample_parse_def home_js_def broken_js_def trailing_js_def exports_js_def
      text_js_def null_js_def declared_js_def require_js_def)

lemma parse_ready: "sample_parse ready_js = Some [AssignExportsProp ''ready'' (JBool True)]"
  by (simp add: sample_parse_def home_js_def broken_js_def trailing_js_def exports_js_def
      text_js_def null_js_def declared_js_def require_js_def ready_js_def)

lemma parse_esm:
  "sample_parse esm_js
     = Some [AssignModuleExports
               (JObject [(''__esModule'', JBool True), (''default'', JFunction home_fn)])]"
  by (simp add: sample_parse_def home_js_def broken_js_def trailing_js_def exports_js_def
      text_js_def null_js_def declared_js_def require_js_def ready_js_def esm_js_def)

lemma script_site_read:
  "fs_read script_site ''/site/pages/home.js'' = Some home_js"
  "fs_read script_site ''/site/pages/trailing.js'' = Some trailing_js"
  "fs_read script_site ''/site/pages/exports.js'' = Some exports_js"
  "fs_read script_site ''/site/pages/plain.js'' = Some text_js"
  "fs_read script_site ''/site/pages/null.js'' = Some null_js"
  "fs_read script_site ''/site/pages/declared.js'' = Some declared_js"
  "fs_read script_site ''/site/pages/require.js'' = Some require_js"
  "fs_read script_site ''/site/pages/ready.js'' = Some ready_js"
  "fs_read script_site ''/site/pages/esm.js'' = Some esm_js"
  "vm_parse script_site = sample_parse"
  "plugin_exports script_site = []"
  "module_require script_site = sample_require"
  by (simp_all add: script_site_def site_def)

lemma script_site_runs:
  "run_page_script script_site ''/site/pages/home.js''
     = Inr \<lparr>completion = JFunction home_fn, mod_exports = JFunction home_fn, exports_obj = []\<rparr>"
  "run_page_script script_site ''/site/pages/trailing.js''
     = Inr \<lparr>completion = JString ''done'', mod_exports = JFunction home_fn, exports_obj = []\<rparr>"
  "run_page_script script_site ''/site/pages/exports.js''
     = Inr \<lparr>completion = JBool True, mod_exports = JFunction home_fn,
            exports_obj = [(''ready'', JBool True)]\<rparr>"
  "run_page_script script_site ''/site/pages/plain.js''
     = Inr \<lparr>completion = JString ''plain text'', mod_exports = JString ''plain text'',
            exports_obj = []\<rparr>"
  "run_page_script script_site ''/site/pages/null.js''
     = Inr \<lparr>completion = JNull, mod_exports = JObject [], exports_obj = []\<rparr>"
  "run_page_script script_site ''/site/pages/declared.js''
     = Inr \<lparr>completion = JFunction home_fn, mod_exports = JFunction home_fn, exports_obj = []\<rparr>"
  "run_page_script script_site ''/site/pages/require.js''
     = Inr \<lparr>completion = JObject [(''title'', JString ''Hi'')], mod_exports = JObject [],
            exports_obj = []\<rparr>"
  "run_page_script script_site ''/site/pages/missing.js'' = Inl (IOError ''/site/pages/missing.js'')"
  by (simp_all add: run_page_script_def script_site_read parse_home parse_trailing parse_exports
      parse_text parse_null parse_declared parse_require sandbox_require_def sample_require_def
      path_dirname_def)
     (simp add: script_site_def site_def)

lemma script_site_esm:
  "run_page_script script_site ''/site/pages/esm.js''
     = Inr \<lparr>completion = JObject [(''__esModule'', JBool True), (''default'', JFunction home_fn)],
            mod_exports = JObject [(''__esModule'', JBool True), (''default'', JFunction home_fn)],
            exports_obj = []\<rparr>"
  by (simp add: run_page_script_def script_site_read parse_esm)

lemma script_site_results:
  "evaluateCompilationResult script_site ''/site/pages/home.js'' = Inr home_fn"
  "evaluateCompilationResult script_site ''/site/pages/trailing.js''
     = Inl (PluginError ''Source not produce an HTML'')"
  "evaluateCompilationResult script_site ''/site/pages/exports.js''
     = Inl (PluginError ''Source not produce an HTML'')"
  "evaluateCompilationResult script_site ''/site/pages/plain.js''
     = Inl (PluginError ''Source not produce an HTML'')"
  by (simp_all add: evaluateCompilationResult_def script_site_runs unwrap_default_def)

section \<open>Pages, names and rendered pages\<close>

lemma render_pages_append:
  "render_pages p w parts (a @ b)
     = (case render_pages p w parts a of
          Inl e \<Rightarrow> Inl e
        | Inr ra \<Rightarrow> (case render_pages p w parts b of Inl e \<Rightarrow> Inl e | Inr rb \<Rightarrow> Inr (ra @ rb)))"
  by (induction a) (simp_all split: sum.splits)

lemma emit_pages_append: "emit_pages (a @ b) st = emit_pages b (emit_pages a st)"
  by (simp add: emit_pages_def)

lemma emit_pages_None [simp]: "emit_pages (None # rs) st = emit_pages rs st"
  by (simp add: emit_pages_def emit_page_def)

lemma read_pages_append:
  "read_pages p w (a @ b)
     = (fst (read_pages p w a) @ fst (read_pages p w b), snd (read_pages p w a) @ snd (read_pages p w b))"
  by (simp add: read_pages_def)

lemma read_pages_Cons:
  "read_pages p w (f # fs)
     = (fst (read_page p w f) # fst (read_pages p w fs), snd (read_page p w f) @ snd (read_pages p w fs))"
  by (simp add: read_pages_def)

lemma build_pages_skip:
  assumes "read_page p w f = (None, [])"
  shows "build_pages p w (pre @ f # post) st = build_pages p w (pre @ post) st"
  using assms
  by (simp add: build_pages_def read_pages_append read_pages_Cons render_pages_append
      emit_pages_append Let_def split: sum.splits)

text \<open>Names and file names never start with an underscore.\<close>

lemma match_prefix_first:
  "match_prefix_without c s = Some m \<Longrightarrow> m = takeWhile (\<lambda>x. x \<noteq> c) s \<and> m \<noteq> [] \<and> hd m = hd s"
  by (cases s) (auto simp: match_prefix_without_def Let_def split: if_splits)

lemma startsWith_underscore_hd: "startsWith_underscore s \<longleftrightarrow> s \<noteq> [] \<and> hd s = CHR ''_''"
  by (cases s) simp_all

lemma read_page_name:
  assumes "read_page p w f = (Some pg, ls)"
  shows "name pg = takeWhile (\<lambda>c. c \<noteq> CHR ''.'') f \<and> name pg \<noteq> [] \<and> ls = []
         \<and> \<not> startsWith_underscore f \<and> \<not> startsWith_underscore (name pg)
         \<and> evaluateCompilationResult w (path_resolve (pagesDir p) f) = Inr (fn pg)"
proof -
  from assms have nu: "\<not> startsWith_underscore f"
    by (auto simp: read_page_def split: if_splits)
  from assms nu obtain m where m: "match_prefix_without (CHR ''.'') f = Some m"
    and pg: "name pg = m" and ls: "ls = []"
    and ev: "evaluateCompilationResult w (path_resolve (pagesDir p) f) = Inr (fn pg)"
    by (auto simp: read_page_def split: sum.splits option.splits)
  from match_prefix_first[OF m] pg nu
  have "\<not> startsWith_underscore (name pg)"
    by (cases f) (auto simp: startsWith_underscore_hd)
  with match_prefix_first[OF m] pg ls nu ev show ?thesis by auto
qed

lemma render_page_filename:
  assumes "render_page p w parts (Some pg) = Inr r"
  shows "\<exists>rp. r = Some rp \<and> filename rp = name pg @ ''.html''
           \<and> absoluteFilename rp = path_resolve (destDir p) (name pg) @ ''.html''"
  using assms
  by (auto simp: render_page_def split: fn_body.splits sum.splits)

lemma read_pages_names:
  "Some pg \<in> set (fst (read_pages p w files)) \<Longrightarrow> \<not> startsWith_underscore (name pg)"
proof -
  assume "Some pg \<in> set (fst (read_pages p w files))"
  then obtain f where "fst (read_page p w f) = Some pg"
    by (auto simp: read_pages_def)
  then have "read_page p w f = (Some pg, snd (read_page p w f))"
    by (metis prod.collapse)
  from read_page_name[OF this] show ?thesis by blast
qed

lemma render_pages_filenames:
  "render_pages p w parts pgs = Inr rs \<Longrightarrow>
   (\<And>pg. Some pg \<in> set pgs \<Longrightarrow> \<not> startsWith_underscore (name pg)) \<Longrightarrow>
   Some rp \<in> set rs \<Longrightarrow> \<not> startsWith_underscore (filename rp)"
proof (induction pgs arbitrary: rs)
  case Nil
  then show ?case by simp
next
  case (Cons pg pgs)
  from Cons.prems(1) obtain r rs' where r: "render_page p w parts pg = Inr r"
    and rs': "render_pages p w parts pgs = Inr rs'" and rs: "rs = r # rs'"
    by (auto split: sum.splits)
  from Cons.prems(3) rs consider "r = Some rp" | "Some rp \<in> set rs'" by auto
  then show ?case
  proof cases
    case 1
    with r obtain q where q: "pg = Some q"
      by (cases pg) (auto simp: render_page_def)
    from render_page_filename[OF r[unfolded q]] 1 have fn: "filename rp = name q @ ''.html''"
      by auto
    from Cons.prems(2)[of q] q have "\<not> startsWith_underscore (name q)" by simp
    with fn show ?thesis
      by (cases "name q") (simp_all add: startsWith_underscore_hd)
  next
    case 2
    from Cons.IH[OF rs' _ 2] Cons.prems(2) show ?thesis by simp
  qed
qed

lemma emit_pages_untouched:
  "(\<And>rp. Some rp \<in> set rs \<Longrightarrow> filename rp \<noteq> n) \<Longrightarrow> assets (emit_pages rs st) n = assets st n"
proof (induction rs arbitrary: st)
  case Nil
  then show ?case by (simp add: emit_pages_def)
next
  case (Cons r rs)
  have "assets (emit_page r st) n = assets st n"
    using Cons.prems by (intro emit_page_other) (auto split: option.splits)
  moreover have "assets (emit_pages rs (emit_page r st)) n = assets (emit_page r st) n"
    using Cons.prems by (intro Cons.IH) simp
  ultimately show ?case by (simp add: emit_pages_def)
qed

lemma build_pages_underscore_assets:
  assumes "startsWith_underscore n"
  shows "assets (final_state (build_pages p w files st)) n = assets st n"
proof (cases "render_pages p w (partials st) (fst (read_pages p w files))")
  case (Inl e)
  then show ?thesis by (simp add: build_pages_def Let_def)
next
  case (Inr rs)
  have "\<And>rp. Some rp \<in> set rs \<Longrightarrow> filename rp \<noteq> n"
    using render_pages_filenames[OF Inr read_pages_names[of _ p w files]] assms by blast
  from emit_pages_untouched[OF this] Inr show ?thesis
    by (simp add: build_pages_def Let_def)
qed

lemma render_pages_throws:
  "Some pg \<in> set pgs \<Longrightarrow> fn pg = Throws e \<Longrightarrow> \<exists>e'. render_pages p w parts pgs = Inl e'"
proof (induction pgs)
  case Nil
  then show ?case by simp
next
  case (Cons q pgs)
  show ?case
  proof (cases "q = Some pg")
    case True
    with Cons.prems(2) show ?thesis by (simp add: render_page_def)
  next
    case False
    with Cons.prems have "Some pg \<in> set pgs" by simp
    from Cons.IH[OF this Cons.prems(2)] show ?thesis
      by (auto split: sum.splits)
  qed
qed

lemma build_pages_rejected_assets:
  "\<not> callback_called (build_pages p w files st) \<Longrightarrow>
   assets (final_state (build_pages p w files st)) = assets st"
  by (auto simp: build_pages_def Let_def split: sum.splits)

lemma basename_plain: "CHR ''/'' \<notin> set f \<Longrightarrow> basename f = f"
  unfolding basename_def
  by (subst takeWhile_eq_all_conv[THEN iffD2]) auto

section \<open>The handler on the sample sites\<close>

lemma nested_site_handler:
  "processAssets (sample_plugin c) nested_site st
     = Completed (add_log [Log ''Finished creating pages'']
         (emit_pages
            [None,
             Some \<lparr>filename = ''shared/_helper.html'',
                   absoluteFilename = ''/site/dist/shared/_helper.html'', html = ''<div>Hi</div>''\<rparr>,
             Some \<lparr>filename = ''blog/post.html'',
                   absoluteFilename = ''/site/dist/blog/post.html'', html = ''<div>Hi</div>''\<rparr>]
            (add_log [Log ''Loaded component: card'']
               ((add_log [Log ''Starting creating static pages....''] st)
                  \<lparr>partials := (partials st)(''card'' \<mapsto> card_hbs)\<rparr>))))"
  by (simp add: processAssets_def glob_sync_def nested_site_def site_def sample_listing_def
      ends_with_def hidden_def load_card build_pages_def read_pages_def read_home read_underscore
      match_prefix_without_def render_home_page Let_def)

lemma card_site_handler:
  "processAssets (sample_plugin c) card_site st
     = Completed (add_log [Log ''Finished creating pages'']
         (emit_pages
            [Some \<lparr>filename = ''home.html'', absoluteFilename = ''/site/dist/home.html'',
                   html = ''<div>Hi</div>''\<rparr>]
            (add_log [Log ''Loaded component: card'']
               ((add_log [Log ''Starting creating static pages....''] st)
                  \<lparr>partials := (partials st)(''card'' \<mapsto> card_hbs)\<rparr>))))"
  by (simp add: processAssets_def glob_sync_def card_site_def site_def sample_listing_def
      ends_with_def hidden_def load_card build_pages_def read_pages_def read_home
      match_prefix_without_def render_home_page Let_def)

lemma load_flat_card:
  "map_of fl ''/site/components/card.hbs'' = Some card_hbs \<Longrightarrow>
   load_component (sample_plugin c) (sample_world cs ps fl) ''card.hbs'' st
     = Inr (add_log [Log ''Loaded component: card.hbs'']
             (st\<lparr>partials := (partials st)(''card.hbs'' \<mapsto> card_hbs)\<rparr>))"
  by (simp add: load_component_def path_resolve_def match_prefix_without_def card_hbs_def)

lemma flat_site_handler:
  "partials st ''card'' = None \<Longrightarrow>
   processAssets (sample_plugin c) flat_site st
     = Rejected (TemplateError ''The partial card could not be found'')
         (add_log [Log ''Loaded component: card.hbs'']
            ((add_log [Log ''Starting creating static pages....''] st)
               \<lparr>partials := (partials st)(''card.hbs'' \<mapsto> card_hbs)\<rparr>))"
  by (simp add: processAssets_def glob_sync_def flat_site_def site_def sample_listing_def
      ends_with_def hidden_def load_flat_card build_pages_def read_pages_def read_home
      match_prefix_without_def render_home_page_missing Let_def)

lemma read_broken:
  "map_of fl (''/site/pages/'' @ f) = Some broken_js \<Longrightarrow> \<not> startsWith_underscore f \<Longrightarrow>
   match_prefix_without (CHR ''.'') f = Some n \<Longrightarrow>
   read_page (sample_plugin c) (sample_world cs ps fl) f
     = (Some \<lparr>name = n, fn = Throws (JString ''boom'')\<rparr>, [])"
  by (simp add: read_page_def path_resolve_def evaluate_broken)

lemma render_broken_page:
  "render_page p w parts (Some \<lparr>name = n, fn = Throws e\<rparr>) = Inl (Thrown e)"
  by (simp add: render_page_def)

lemma broken_site_handler:
  "processAssets (sample_plugin c) broken_site st
     = Rejected (Thrown (JString ''boom''))
         (add_log [Log ''Loaded component: card'']
            ((add_log [Log ''Starting creating static pages....''] st)
               \<lparr>partials := (partials st)(''card'' \<mapsto> card_hbs)\<rparr>))"
  by (simp add: processAssets_def glob_sync_def broken_site_def site_def sample_listing_def
      ends_with_def hidden_def load_card build_pages_def read_pages_def read_home read_broken
      match_prefix_without_def render_home_page render_broken_page Let_def)

section \<open>The claims\<close>

text \<open>
  \<^bold>\<open>C1\<close> (a page function that throws).  The \<^verbatim>\<open>try\<close> of lines 54-64 covers the
  evaluation of the page script only; the call \<^verbatim>\<open>page.fn()\<close> of line 71 is outside it.
  Whenever one of the page files found yields a page whose function throws, the
  exception leaves the handler: the callback is not called, the pass does not complete
  and no asset is emitted, for the sibling pages neither.
\<close>

theorem throwing_page_rejects_pass:
  assumes "file \<in> set (glob_sync w ''.js'' (pagesDir p))"
    and "read_page p w file = (Some pg, ls)"
    and "fn pg = Throws e"
  shows "\<not> callback_called (processAssets p w st)
         \<and> \<not> callback_called (build_pass p w st)
         \<and> assets (final_state (build_pass p w st)) = assets st"
proof -
  let ?files = "glob_sync w ''.js'' (pagesDir p)"
  from assms(1,2) have "Some pg \<in> set (fst (read_pages p w ?files))"
    by (force simp: read_pages_def)
  then have rej: "\<not> callback_called (build_pages p w ?files s)" for s
  proof -
    assume "Some pg \<in> set (fst (read_pages p w ?files))"
    from render_pages_throws[OF this assms(3)]
    obtain e' where "render_pages p w (partials s) (fst (read_pages p w ?files)) = Inl e'"
      by blast
    then show ?thesis
      by (simp add: build_pages_def Let_def)
  qed
  have "\<not> callback_called (processAssets p w st)
        \<and> assets (final_state (processAssets p w st)) = assets st"
  proof (cases "load_components p w (glob_sync w ''.hbs'' (componentsDir p))
             (add_log [Log ''Starting creating static pages....''] st)")
    case (Inl a)
    obtain e' st' where a: "a = (e', st')" by (cases a)
    from Inl a load_components_frame[of p w _ _ st' e']
    have "assets st' = assets st" by fastforce
    with Inl a show ?thesis by (simp add: processAssets_def)
  next
    case (Inr st')
    from Inr load_components_frame[of p w _ _ st']
    have "assets st' = assets st" by fastforce
    with Inr rej[of st'] build_pages_rejected_assets[OF rej[of st']] show ?thesis
      by (simp add: processAssets_def)
  qed
  then show ?thesis
    by (cases "processAssets p w st") (simp_all add: build_pass_def)
qed

text \<open>
  The sample site with \<^verbatim>\<open>home.js\<close> and \<^verbatim>\<open>broken.js\<close>: the handler is rejected with the
  value thrown, nothing but the two progress messages is logged, and neither
  \<^verbatim>\<open>home.html\<close> nor \<^verbatim>\<open>broken.html\<close> exists.
\<close>

theorem throwing_page_rejects_pass_witness:
  "glob_sync broken_site ''.js'' ''/site/pages'' = [''home.js'', ''broken.js'']
   \<and> build_pass (sample_plugin None) broken_site (initial_state (sample_plugin None) Map.empty)
       = Rejected (Thrown (JString ''boom''))
           ((initial_state (sample_plugin None) Map.empty)
              \<lparr>partials := [''card'' \<mapsto> card_hbs],
               logged := [Log ''Starting creating static pages....'', Log ''Loaded component: card'']\<rparr>)
   \<and> \<not> callback_called (build_pass (sample_plugin None) broken_site
                           (initial_state (sample_plugin None) Map.empty))
   \<and> assets (final_state (build_pass (sample_plugin None) broken_site
                (initial_state (sample_plugin None) Map.empty))) ''home.html'' = None
   \<and> assets (final_state (build_pass (sample_plugin None) broken_site
                (initial_state (sample_plugin None) Map.empty))) ''broken.html'' = None"
proof -
  let ?p = "sample_plugin None"
  let ?st = "initial_state ?p Map.empty"
  have files: "glob_sync broken_site ''.js'' ''/site/pages'' = [''home.js'', ''broken.js'']"
    by (simp add: glob_sync_def broken_site_def site_def sample_listing_def ends_with_def hidden_def)
  have rd: "read_page ?p broken_site ''broken.js'' = (Some \<lparr>name = ''broken'', fn = Throws (JString ''boom'')\<rparr>, [])"
    by (simp add: broken_site_def site_def read_broken match_prefix_without_def)
  have "''broken.js'' \<in> set (glob_sync broken_site ''.js'' (pagesDir ?p))"
    by (simp add: files)
  from throwing_page_rejects_pass[OF this rd, of "JString ''boom''" ?st]
  have "\<not> callback_called (build_pass ?p broken_site ?st)"
    and "assets (final_state (build_pass ?p broken_site ?st)) = assets ?st"
    by simp_all
  moreover have "assets ?st = Map.empty"
    by (simp add: initial_state_def)
  moreover have "build_pass ?p broken_site ?st
       = Rejected (Thrown (JString ''boom''))
           (?st\<lparr>partials := [''card'' \<mapsto> card_hbs],
               logged := [Log ''Starting creating static pages....'', Log ''Loaded component: card'']\<rparr>)"
    by (simp add: build_pass_def broken_site_handler initial_state_def add_log_def)
  ultimately show ?thesis using files by simp
qed

text \<open>
  \<^bold>\<open>C2\<close> (the concurrency limiter).  \<^verbatim>\<open>apply\<close> makes a limiter from the configured
  concurrency, 100 when the option is absent or zero, and that is all it does with it:
  the handler builds the pages one after another inside \<^verbatim>\<open>Array.prototype.map\<close> and
  calls the limiter for none of them.  After a pass from the initial state the limiter
  is the one \<^verbatim>\<open>pLimit\<close> returned, with no task ever handed to it, whatever the pages.
\<close>

theorem limiter_never_used:
  "limit (final_state (build_pass p w (initial_state p existing))) = apply_limit p
   \<and> submitted (apply_limit p) = 0
   \<and> limiter_concurrency (apply_limit p)
       = (case concurrency p of None \<Rightarrow> 100 | Some c \<Rightarrow> if c = 0 then 100 else c)"
  by (simp add: build_pass_limit initial_state_def apply_limit_def pLimit_def)

theorem limiter_never_used_witness:
  "callback_called (build_pass (sample_plugin (Some 1)) ten_site (initial_state (sample_plugin (Some 1)) Map.empty))
   \<and> list_all (\<lambda>n. assets (final_state (build_pass (sample_plugin (Some 1)) ten_site
                        (initial_state (sample_plugin (Some 1)) Map.empty))) n
                    = Some \<lparr>source = ''<div>Hi</div>'', created = True\<rparr>)
        [''p0.html'', ''p1.html'', ''p2.html'', ''p3.html'', ''p4.html'', ''p5.html'', ''p6.html'',
         ''p7.html'', ''p8.html'', ''p9.html'']
   \<and> limit (final_state (build_pass (sample_plugin (Some 1)) ten_site
                (initial_state (sample_plugin (Some 1)) Map.empty)))
       = \<lparr>limiter_concurrency = 1, activeCount = 0, pendingCount = 0, submitted = 0\<rparr>"
proof -
  let ?p = "sample_plugin (Some 1)"
  let ?st = "initial_state ?p Map.empty"
  have "callback_called (build_pass ?p ten_site ?st)"
    by (simp add: build_pass_def ten_site_handler)
  moreover have "list_all (\<lambda>n. assets (final_state (build_pass ?p ten_site ?st)) n
                    = Some \<lparr>source = ''<div>Hi</div>'', created = True\<rparr>)
        [''p0.html'', ''p1.html'', ''p2.html'', ''p3.html'', ''p4.html'', ''p5.html'', ''p6.html'',
         ''p7.html'', ''p8.html'', ''p9.html'']"
    by (simp add: build_pass_def ten_site_handler emit_pages_def emit_page_def initial_state_def)
  moreover from limiter_never_used[of ?p ten_site Map.empty]
  have "limit (final_state (build_pass ?p ten_site ?st))
       = \<lparr>limiter_concurrency = 1, activeCount = 0, pendingCount = 0, submitted = 0\<rparr>"
    by (simp add: apply_limit_def pLimit_def)
  ultimately show ?thesis by simp
qed

text \<open>
  \<^bold>\<open>C3\<close> (the captured value).  The evaluator captures the completion value of the script,
  the value of the last statement that has one, and never reads \<^verbatim>\<open>module.exports\<close>.
  When the assignment to \<^verbatim>\<open>module.exports\<close> is the last statement with a value, that is
  when only declarations follow it, and the statements before it run without throwing,
  the script runs to its end and the captured value is the value assigned, which is also
  the final \<^verbatim>\<open>module.exports\<close>.
\<close>

theorem export_captured_when_last:
  assumes "fs_read w file = Some src"
    and "vm_parse w src = Some (pre @ AssignModuleExports v # post)"
    and "runInContext (sandbox_require w file (path_dirname file)) pre
           \<lparr>completion = JUndefined, mod_exports = JObject [], exports_obj = plugin_exports w\<rparr>
         = Inr st1"
    and "list_all (\<lambda>s. s = Declaration) post"
  shows "\<exists>st. run_page_script w file = Inr st \<and> completion st = v \<and> mod_exports st = v"
  using assms
  by (simp add: run_page_script_def runInContext_append runInContext_declarations)

text \<open>
  A script with a declaration before and after its export.
\<close>

theorem export_captured_when_last_witness:
  "\<exists>st. run_page_script script_site ''/site/pages/declared.js'' = Inr st
        \<and> completion st = JFunction home_fn \<and> mod_exports st = JFunction home_fn"
proof (rule export_captured_when_last[where pre = "[Declaration]" and post = "[Declaration]"])
  show "fs_read script_site ''/site/pages/declared.js'' = Some declared_js"
    by (simp add: script_site_read)
  show "vm_parse script_site declared_js
      = Some ([Declaration] @ AssignModuleExports (JFunction home_fn) # [Declaration])"
    by (simp add: script_site_read parse_declared)
  show "runInContext (sandbox_require script_site ''/site/pages/declared.js''
            (path_dirname ''/site/pages/declared.js'')) [Declaration]
          \<lparr>completion = JUndefined, mod_exports = JObject [],
           exports_obj = plugin_exports script_site\<rparr>
        = Inr \<lparr>completion = JUndefined, mod_exports = JObject [],
           exports_obj = plugin_exports script_site\<rparr>"
    by simp
  show "list_all (\<lambda>s. s = Declaration) [Declaration]"
    by simp
qed

text \<open>
  A script whose export is followed by an expression statement: the module's exports
  are the page function, the captured value is the string of the last statement, and the
  evaluator rejects the page.
\<close>

theorem export_not_captured_counterexample:
  "vm_parse script_site trailing_js
     = Some [AssignModuleExports (JFunction home_fn), Expression (JString ''done'')]
   \<and> run_page_script script_site ''/site/pages/trailing.js''
       = Inr \<lparr>completion = JString ''done'', mod_exports = JFunction home_fn, exports_obj = []\<rparr>
   \<and> JString ''done'' \<noteq> JFunction home_fn
   \<and> evaluateCompilationResult script_site ''/site/pages/trailing.js''
       = Inl (PluginError ''Source not produce an HTML'')"
  by (simp add: script_site_runs script_site_results script_site_read parse_trailing)

text \<open>
  \<^bold>\<open>C4\<close> (what the evaluator returns).  \<^verbatim>\<open>evaluateCompilationResult\<close> fails with the
  plugin's error \<^verbatim>\<open>The file is empty\<close> exactly when the path is empty.  For a path that is
  not empty an error of reading, compiling or running the script is passed on.  When the
  script runs to its end with a value other than \<^verbatim>\<open>null\<close>, the default-unwrapped result
  \<open>r\<close> exists (the \<^verbatim>\<open>default\<close> property of a value that is an object with truthy
  \<^verbatim>\<open>__esModule\<close> and \<^verbatim>\<open>default\<close>, the value itself otherwise), the evaluator returns \<open>f\<close>
  exactly when \<open>r\<close> is the function \<open>f\<close>, and it fails with the plugin's error
  \<^verbatim>\<open>Source not produce an HTML\<close> exactly when \<open>r\<close> is not a function.
\<close>

theorem evaluate_outcomes:
  "(evaluateCompilationResult w file = Inl (PluginError ''The file is empty'') \<longleftrightarrow> file = [])
   \<and> (file \<noteq> [] \<and> run_page_script w file = Inl e \<longrightarrow> evaluateCompilationResult w file = Inl e)
   \<and> (file \<noteq> [] \<and> run_page_script w file = Inr st \<and> completion st \<noteq> JNull
        \<longrightarrow> (\<exists>r. unwrap_default (completion st) = Inr r
               \<and> (r = (case completion st of
                          JObject ps \<Rightarrow>
                            (case (map_of ps ''__esModule'', map_of ps ''default'') of
                               (Some m, Some d) \<Rightarrow> if truthy m \<and> truthy d then d else JObject ps
                             | _ \<Rightarrow> JObject ps)
                        | v \<Rightarrow> v))
               \<and> (\<forall>f. evaluateCompilationResult w file = Inr f \<longleftrightarrow> r = JFunction f)
               \<and> (evaluateCompilationResult w file = Inl (PluginError ''Source not produce an HTML'')
                    \<longleftrightarrow> typeof r \<noteq> ''function'')))"
proof (intro conjI impI)
  show "evaluateCompilationResult w file = Inl (PluginError ''The file is empty'') \<longleftrightarrow> file = []"
  proof
    assume empty: "evaluateCompilationResult w file = Inl (PluginError ''The file is empty'')"
    show "file = []"
    proof (rule ccontr)
      assume "file \<noteq> []"
      with empty show False
        by (auto simp: evaluateCompilationResult_def
            split: sum.splits js_value.splits
            dest: run_page_script_error unwrap_default_error)
    qed
  next
    assume "file = []"
    then show "evaluateCompilationResult w file = Inl (PluginError ''The file is empty'')"
      by (simp add: evaluateCompilationResult_def)
  qed
next
  assume "file \<noteq> [] \<and> run_page_script w file = Inl e"
  then show "evaluateCompilationResult w file = Inl e"
    by (simp add: evaluateCompilationResult_def)
next
  assume a: "file \<noteq> [] \<and> run_page_script w file = Inr st \<and> completion st \<noteq> JNull"
  let ?r = "case completion st of
              JObject ps \<Rightarrow>
                (case (map_of ps ''__esModule'', map_of ps ''default'') of
                   (Some m, Some d) \<Rightarrow> if truthy m \<and> truthy d then d else JObject ps
                 | _ \<Rightarrow> JObject ps)
            | v \<Rightarrow> v"
  from a have r: "unwrap_default (completion st) = Inr ?r"
    by (cases "completion st") (auto simp: unwrap_default_def split: option.splits)
  have "(\<forall>f. evaluateCompilationResult w file = Inr f \<longleftrightarrow> ?r = JFunction f)
      \<and> (evaluateCompilationResult w file = Inl (PluginError ''Source not produce an HTML'')
            \<longleftrightarrow> typeof ?r \<noteq> ''function'')"
    using a r by (cases ?r) (simp_all add: evaluateCompilationResult_def)
  with r show "\<exists>r. unwrap_default (completion st) = Inr r
               \<and> (r = (case completion st of
                          JObject ps \<Rightarrow>
                            (case (map_of ps ''__esModule'', map_of ps ''default'') of
                               (Some m, Some d) \<Rightarrow> if truthy m \<and> truthy d then d else JObject ps
                             | _ \<Rightarrow> JObject ps)
                        | v \<Rightarrow> v))
               \<and> (\<forall>f. evaluateCompilationResult w file = Inr f \<longleftrightarrow> r = JFunction f)
               \<and> (evaluateCompilationResult w file = Inl (PluginError ''Source not produce an HTML'')
                    \<longleftrightarrow> typeof r \<noteq> ''function'')"
    by blast
qed

text \<open>
  The outcomes on the sample scripts: the empty path, a missing file, a page function, a
  transpiled ES module wrapper around a page function, and a string.
\<close>

theorem evaluate_outcomes_witness:
  "evaluateCompilationResult script_site [] = Inl (PluginError ''The file is empty'')
   \<and> evaluateCompilationResult script_site ''/site/pages/missing.js''
       = Inl (IOError ''/site/pages/missing.js'')
   \<and> evaluateCompilationResult script_site ''/site/pages/home.js'' = Inr home_fn
   \<and> evaluateCompilationResult script_site ''/site/pages/esm.js'' = Inr home_fn
   \<and> evaluateCompilationResult script_site ''/site/pages/plain.js''
       = Inl (PluginError ''Source not produce an HTML'')"
proof -
  have "evaluateCompilationResult script_site [] = Inl (PluginError ''The file is empty'')"
    using evaluate_outcomes[of script_site "[]"] by simp
  moreover have "evaluateCompilationResult script_site ''/site/pages/missing.js''
       = Inl (IOError ''/site/pages/missing.js'')"
    using evaluate_outcomes[of script_site "''/site/pages/missing.js''" "IOError ''/site/pages/missing.js''"]
    by (simp add: script_site_runs)
  moreover have "evaluateCompilationResult script_site ''/site/pages/home.js'' = Inr home_fn"
    using evaluate_outcomes[of script_site "''/site/pages/home.js''" _
        "\<lparr>completion = JFunction home_fn, mod_exports = JFunction home_fn, exports_obj = []\<rparr>"]
    by (simp add: script_site_runs)
  moreover have "evaluateCompilationResult script_site ''/site/pages/esm.js'' = Inr home_fn"
    using evaluate_outcomes[of script_site "''/site/pages/esm.js''" _
        "\<lparr>completion = JObject [(''__esModule'', JBool True), (''default'', JFunction home_fn)],
          mod_exports = JObject [(''__esModule'', JBool True), (''default'', JFunction home_fn)],
          exports_obj = []\<rparr>"]
    by (simp add: script_site_esm)
  moreover have "evaluateCompilationResult script_site ''/site/pages/plain.js''
       = Inl (PluginError ''Source not produce an HTML'')"
    using evaluate_outcomes[of script_site "''/site/pages/plain.js''" _
        "\<lparr>completion = JString ''plain text'', mod_exports = JString ''plain text'',
            exports_obj = []\<rparr>"]
    by (simp add: script_site_runs)
  ultimately show ?thesis by simp
qed

text \<open>
  The message of line 159 is \<^verbatim>\<open>Source not produce an HTML\<close>: a script whose value is a
  string, which is not callable, fails with that message and not with
  \<^verbatim>\<open>Source did not produce an HTML\<close>.
\<close>

theorem evaluate_message_counterexample:
  "typeof (JString ''plain text'') \<noteq> ''function''
   \<and> run_page_script script_site ''/site/pages/plain.js''
       = Inr \<lparr>completion = JString ''plain text'', mod_exports = JString ''plain text'',
              exports_obj = []\<rparr>
   \<and> unwrap_default (JString ''plain text'') = Inr (JString ''plain text'')
   \<and> evaluateCompilationResult script_site ''/site/pages/plain.js''
       = Inl (PluginError ''Source not produce an HTML'')
   \<and> evaluateCompilationResult script_site ''/site/pages/plain.js''
       \<noteq> Inl (PluginError ''Source did not produce an HTML'')"
  by (simp add: script_site_runs script_site_results unwrap_default_def)

text \<open>
  \<^bold>\<open>C5\<close> (the underscore filter).  The test of line 53 is made on the path of the page
  file relative to the pages root.  A page file whose relative path starts with an
  underscore, that is a file at the top of the pages root whose name does, or any file
  below a top-level directory whose name does, is left out: it is not evaluated and
  nothing is logged for it, the pass runs exactly as it does without the file, and the
  asset named after it is neither created nor changed by any pass.
\<close>

theorem underscore_paths_excluded:
  assumes "startsWith_underscore file"
  shows "read_page p w file = (None, [])
         \<and> build_pages p w (pre @ file # post) st = build_pages p w (pre @ post) st
         \<and> (\<forall>files. assets (final_state (build_pages p w files st)) (takeWhile (\<lambda>c. c \<noteq> CHR ''.'') file @ ''.html'')
                     = assets st (takeWhile (\<lambda>c. c \<noteq> CHR ''.'') file @ ''.html''))"
proof -
  have skip: "read_page p w file = (None, [])"
    using assms by (simp add: read_page_def)
  from assms have "startsWith_underscore (takeWhile (\<lambda>c. c \<noteq> CHR ''.'') file @ ''.html'')"
    by (cases "file") simp_all
  with skip build_pages_skip[OF skip] show ?thesis
    by (simp add: build_pages_underscore_assets)
qed

text \<open>
  \<^verbatim>\<open>_helper.js\<close> at the top of the sample pages root.
\<close>

theorem underscore_paths_excluded_witness:
  "read_page (sample_plugin None) nested_site ''_helper.js'' = (None, [])
   \<and> build_pages (sample_plugin None) nested_site [''_helper.js'', ''shared/_helper.js'', ''blog/post.js'']
        (initial_state (sample_plugin None) Map.empty)
      = build_pages (sample_plugin None) nested_site [''shared/_helper.js'', ''blog/post.js'']
        (initial_state (sample_plugin None) Map.empty)
   \<and> assets (final_state (build_pages (sample_plugin None) nested_site
                [''_helper.js'', ''shared/_helper.js'', ''blog/post.js'']
                (initial_state (sample_plugin None) Map.empty))) ''_helper.html'' = None"
  using underscore_paths_excluded[of "''_helper.js''" "sample_plugin None" nested_site "[]"
      "[''shared/_helper.js'', ''blog/post.js'']" "initial_state (sample_plugin None) Map.empty"]
  by (simp add: initial_state_def)

text \<open>
  The filter does not look at the base name: \<^verbatim>\<open>shared/_helper.js\<close>, whose base name
  starts with an underscore, is found, evaluated and built into \<^verbatim>\<open>shared/_helper.html\<close>.
\<close>

theorem nested_underscore_counterexample:
  "startsWith_underscore (basename ''shared/_helper.js'')
   \<and> ''shared/_helper.js'' \<in> set (glob_sync nested_site ''.js'' (pagesDir (sample_plugin None)))
   \<and> read_page (sample_plugin None) nested_site ''shared/_helper.js''
       = (Some \<lparr>name = ''shared/_helper'', fn = home_fn\<rparr>, [])
   \<and> assets (final_state (processAssets (sample_plugin None) nested_site
                (initial_state (sample_plugin None) Map.empty))) ''shared/_helper.html''
       = Some \<lparr>source = ''<div>Hi</div>'', created = True\<rparr>"
proof -
  have "startsWith_underscore (basename ''shared/_helper.js'')"
    by (simp add: basename_def)
  moreover have "''shared/_helper.js'' \<in> set (glob_sync nested_site ''.js'' (pagesDir (sample_plugin None)))"
    by (simp add: glob_sync_def nested_site_def site_def sample_listing_def ends_with_def hidden_def)
  moreover have "read_page (sample_plugin None) nested_site ''shared/_helper.js''
       = (Some \<lparr>name = ''shared/_helper'', fn = home_fn\<rparr>, [])"
    by (simp add: nested_site_def site_def read_home match_prefix_without_def)
  moreover have "assets (final_state (processAssets (sample_plugin None) nested_site
                (initial_state (sample_plugin None) Map.empty))) ''shared/_helper.html''
       = Some \<lparr>source = ''<div>Hi</div>'', created = True\<rparr>"
    by (simp add: nested_site_handler emit_pages_def emit_page_def initial_state_def)
  ultimately show ?thesis by simp
qed

text \<open>
  \<^bold>\<open>C6\<close> (output deduplication).  For every rendered page that is committed: when an
  asset with its filename already exists the page is skipped and the state is left as
  it is; otherwise an asset with that filename is emitted with the page's HTML and
  \<open>created = True\<close>.  Hence over a whole list of rendered pages an asset that exists is
  never overwritten, and of several pages with one filename the first is the one
  emitted.  The handler as a whole keeps every asset that existed before it ran.
\<close>

theorem output_deduplication:
  "(assets st (filename pg) = Some a \<longrightarrow> emit_page (Some pg) st = st)
   \<and> (assets st (filename pg) = None \<longrightarrow>
        emit_page (Some pg) st
          = st\<lparr>assets := (assets st)(filename pg \<mapsto> \<lparr>source = html pg, created = True\<rparr>)\<rparr>)
   \<and> (assets st n = Some a \<longrightarrow> assets (emit_pages rs st) n = Some a)
   \<and> (assets st n = None
        \<and> find (\<lambda>r. case r of None \<Rightarrow> False | Some q \<Rightarrow> filename q = n) rs = Some (Some first)
        \<longrightarrow> assets (emit_pages rs st) n = Some \<lparr>source = html first, created = True\<rparr>)
   \<and> (assets st n = Some a \<longrightarrow> assets (final_state (processAssets p w st)) n = Some a)"
proof (intro conjI impI)
  assume "assets st n = Some a"
  then show "assets (final_state (processAssets p w st)) n = Some a"
    by (rule processAssets_assets_keep)
qed (simp_all add: emit_page_def emit_pages_keep emit_pages_first)

theorem output_deduplication_witness:
  "emit_page (Some \<lparr>filename = ''home.html'', absoluteFilename = ''/site/dist/home.html'',
                    html = ''<p>new</p>''\<rparr>) sample_state = sample_state
   \<and> assets (emit_page (Some \<lparr>filename = ''about.html'', absoluteFilename = ''/site/dist/about.html'',
                    html = ''<p>first</p>''\<rparr>) sample_state) ''about.html''
       = Some \<lparr>source = ''<p>first</p>'', created = True\<rparr>
   \<and> assets (emit_pages sample_rendered sample_state) ''home.html'' = Some old_home
   \<and> assets (emit_pages sample_rendered sample_state) ''about.html''
       = Some \<lparr>source = ''<p>first</p>'', created = True\<rparr>
   \<and> assets (final_state (processAssets (sample_plugin None) card_site sample_state)) ''home.html''
       = Some old_home"
proof -
  let ?home = "\<lparr>filename = ''home.html'', absoluteFilename = ''/site/dist/home.html'',
                 html = ''<p>new</p>''\<rparr>"
  let ?about = "\<lparr>filename = ''about.html'', absoluteFilename = ''/site/dist/about.html'',
                  html = ''<p>first</p>''\<rparr>"
  have existing: "assets sample_state ''home.html'' = Some old_home"
    by (simp add: sample_state_def initial_state_def)
  have absent: "assets sample_state ''about.html'' = None"
    by (simp add: sample_state_def initial_state_def)
  have first: "find (\<lambda>r. case r of None \<Rightarrow> False | Some q \<Rightarrow> filename q = ''about.html'') sample_rendered
      = Some (Some ?about)"
    by (simp add: sample_rendered_def)
  from existing output_deduplication[of sample_state ?home old_home]
  have "emit_page (Some ?home) sample_state = sample_state"
    by simp
  moreover from absent output_deduplication[of sample_state ?about]
  have "assets (emit_page (Some ?about) sample_state) ''about.html''
       = Some \<lparr>source = ''<p>first</p>'', created = True\<rparr>"
    by simp
  moreover from existing
    output_deduplication[of sample_state _ old_home "''home.html''" sample_rendered _
      "sample_plugin None" card_site]
  have "assets (emit_pages sample_rendered sample_state) ''home.html'' = Some old_home"
    and "assets (final_state (processAssets (sample_plugin None) card_site sample_state)) ''home.html''
       = Some old_home"
    by blast+
  moreover from absent first
    output_deduplication[of sample_state _ _ "''about.html''" sample_rendered ?about]
  have "assets (emit_pages sample_rendered sample_state) ''about.html''
       = Some \<lparr>source = ''<p>first</p>'', created = True\<rparr>"
    by simp
  ultimately show ?thesis by simp
qed

text \<open>
  \<^bold>\<open>C7\<close> (the worked example).  A fragment file with text is registered under the first
  segment of its relative path, which is the name of the top-level directory that holds
  it.  With the fragment \<^verbatim>\<open><div>{{title}}</div>\<close> in \<^verbatim>\<open>card/card.hbs\<close> and the page
  \<^verbatim>\<open>home.js\<close> whose function returns \<^verbatim>\<open>{component: 'card', title: 'Hi'}\<close>, the pass
  registers the fragment as \<^verbatim>\<open>card\<close>, completes, and emits \<^verbatim>\<open>home.html\<close> with the
  content \<^verbatim>\<open><div>Hi</div>\<close>.
\<close>

theorem worked_example:
  "(fs_read w (path_resolve (componentsDir p) file) = Some content \<and> content \<noteq> []
      \<and> file \<noteq> [] \<and> hd file \<noteq> CHR ''/'' \<longrightarrow>
      load_component p w file st
        = Inr (add_log [Log (''Loaded component: '' @ takeWhile (\<lambda>c. c \<noteq> CHR ''/'') file)]
                 (st\<lparr>partials := (partials st)(takeWhile (\<lambda>c. c \<noteq> CHR ''/'') file \<mapsto> content)\<rparr>)))
   \<and> fs_listing card_site ''/site/components'' = [''card/card.hbs'']
   \<and> fs_read card_site ''/site/components/card/card.hbs'' = Some ''<div>{{title}}</div>''
   \<and> fs_listing card_site ''/site/pages'' = [''home.js'']
   \<and> evaluateCompilationResult card_site ''/site/pages/home.js''
       = Inr (Returns (JObject [(''component'', JString ''card''), (''title'', JString ''Hi'')]))
   \<and> callback_called (processAssets (sample_plugin None) card_site (initial_state (sample_plugin None) Map.empty))
   \<and> partials (final_state (processAssets (sample_plugin None) card_site
                  (initial_state (sample_plugin None) Map.empty))) ''card''
       = Some ''<div>{{title}}</div>''
   \<and> assets (final_state (processAssets (sample_plugin None) card_site
                (initial_state (sample_plugin None) Map.empty))) ''home.html''
       = Some \<lparr>source = ''<div>Hi</div>'', created = True\<rparr>"
proof -
  have "fs_read w (path_resolve (componentsDir p) file) = Some content \<and> content \<noteq> []
      \<and> file \<noteq> [] \<and> hd file \<noteq> CHR ''/'' \<longrightarrow>
      load_component p w file st
        = Inr (add_log [Log (''Loaded component: '' @ takeWhile (\<lambda>c. c \<noteq> CHR ''/'') file)]
                 (st\<lparr>partials := (partials st)(takeWhile (\<lambda>c. c \<noteq> CHR ''/'') file \<mapsto> content)\<rparr>))"
    by (cases "file") (auto simp: load_component_def match_prefix_without_def Let_def)
  moreover have "fs_listing card_site ''/site/components'' = [''card/card.hbs'']"
    "fs_read card_site ''/site/components/card/card.hbs'' = Some ''<div>{{title}}</div>''"
    "fs_listing card_site ''/site/pages'' = [''home.js'']"
    by (simp_all add: card_site_def site_def sample_listing_def card_hbs_def)
  moreover have "evaluateCompilationResult card_site ''/site/pages/home.js''
       = Inr (Returns (JObject [(''component'', JString ''card''), (''title'', JString ''Hi'')]))"
    by (simp add: card_site_def site_def evaluate_home home_fn_def)
  moreover have "callback_called (processAssets (sample_plugin None) card_site (initial_state (sample_plugin None) Map.empty))"
    "partials (final_state (processAssets (sample_plugin None) card_site
                  (initial_state (sample_plugin None) Map.empty))) ''card''
       = Some ''<div>{{title}}</div>''"
    "assets (final_state (processAssets (sample_plugin None) card_site
                (initial_state (sample_plugin None) Map.empty))) ''home.html''
       = Some \<lparr>source = ''<div>Hi</div>'', created = True\<rparr>"
    by (simp_all add: card_site_handler emit_pages_def emit_page_def initial_state_def card_hbs_def)
  ultimately show ?thesis by simp
qed

text \<open>
  The registered name of a fragment at the top of the components root is its whole file
  name, that of a fragment in a directory is the directory.
\<close>

theorem worked_example_witness:
  "load_component (sample_plugin None) flat_site ''card.hbs'' (initial_state (sample_plugin None) Map.empty)
     = Inr ((initial_state (sample_plugin None) Map.empty)
              \<lparr>partials := [''card.hbs'' \<mapsto> ''<div>{{title}}</div>''],
               logged := [Log ''Loaded component: card.hbs'']\<rparr>)
   \<and> load_component (sample_plugin None) card_site ''card/card.hbs'' (initial_state (sample_plugin None) Map.empty)
     = Inr ((initial_state (sample_plugin None) Map.empty)
              \<lparr>partials := [''card'' \<mapsto> ''<div>{{title}}</div>''],
               logged := [Log ''Loaded component: card'']\<rparr>)"
proof -
  let ?st = "initial_state (sample_plugin None) Map.empty"
  have "load_component (sample_plugin None) flat_site ''card.hbs'' ?st
     = Inr (?st\<lparr>partials := [''card.hbs'' \<mapsto> ''<div>{{title}}</div>''],
               logged := [Log ''Loaded component: card.hbs'']\<rparr>)"
    using worked_example[of flat_site "sample_plugin None" "''card.hbs''" "''<div>{{title}}</div>''" ?st]
    by (simp add: flat_site_def site_def path_resolve_def card_hbs_def initial_state_def add_log_def)
  moreover have "load_component (sample_plugin None) card_site ''card/card.hbs'' ?st
     = Inr (?st\<lparr>partials := [''card'' \<mapsto> ''<div>{{title}}</div>''],
               logged := [Log ''Loaded component: card'']\<rparr>)"
    using worked_example[of card_site "sample_plugin None" "''card/card.hbs''" "''<div>{{title}}</div>''" ?st]
    by (simp add: card_site_def site_def path_resolve_def card_hbs_def initial_state_def add_log_def)
  ultimately show ?thesis by simp
qed

text \<open>
  With the fragment file \<^verbatim>\<open>card.hbs\<close> at the top of the components root the first
  segment of its path is \<^verbatim>\<open>card.hbs\<close>: no partial \<^verbatim>\<open>card\<close> exists when \<^verbatim>\<open>home.js\<close> is
  rendered, the engine throws, and no \<^verbatim>\<open>home.html\<close> is emitted.
\<close>

theorem flat_fragment_counterexample:
  "fs_listing flat_site ''/site/components'' = [''card.hbs'']
   \<and> fs_read flat_site ''/site/components/card.hbs'' = Some ''<div>{{title}}</div>''
   \<and> fs_listing flat_site ''/site/pages'' = [''home.js'']
   \<and> evaluateCompilationResult flat_site ''/site/pages/home.js''
       = Inr (Returns (JObject [(''component'', JString ''card''), (''title'', JString ''Hi'')]))
   \<and> processAssets (sample_plugin None) flat_site (initial_state (sample_plugin None) Map.empty)
       = Rejected (TemplateError ''The partial card could not be found'')
           ((initial_state (sample_plugin None) Map.empty)
              \<lparr>partials := [''card.hbs'' \<mapsto> ''<div>{{title}}</div>''],
               logged := [Log ''Starting creating static pages....'', Log ''Loaded component: card.hbs'']\<rparr>)
   \<and> assets (final_state (processAssets (sample_plugin None) flat_site
                (initial_state (sample_plugin None) Map.empty))) ''home.html'' = None"
proof -
  have "fs_listing flat_site ''/site/components'' = [''card.hbs'']"
    "fs_read flat_site ''/site/components/card.hbs'' = Some ''<div>{{title}}</div>''"
    "fs_listing flat_site ''/site/pages'' = [''home.js'']"
    by (simp_all add: flat_site_def site_def sample_listing_def card_hbs_def)
  moreover have "evaluateCompilationResult flat_site ''/site/pages/home.js''
       = Inr (Returns (JObject [(''component'', JString ''card''), (''title'', JString ''Hi'')]))"
    by (simp add: flat_site_def site_def evaluate_home home_fn_def)
  moreover have "processAssets (sample_plugin None) flat_site (initial_state (sample_plugin None) Map.empty)
       = Rejected (TemplateError ''The partial card could not be found'')
           ((initial_state (sample_plugin None) Map.empty)
              \<lparr>partials := [''card.hbs'' \<mapsto> ''<div>{{title}}</div>''],
               logged := [Log ''Starting creating static pages....'', Log ''Loaded component: card.hbs'']\<rparr>)"
    by (simp add: flat_site_handler initial_state_def add_log_def card_hbs_def)
  moreover have "assets (final_state (processAssets (sample_plugin None) flat_site
                (initial_state (sample_plugin None) Map.empty))) ''home.html'' = None"
    by (simp add: flat_site_handler initial_state_def add_log_def)
  ultimately show ?thesis by simp
qed

text \<open>
  \<^bold>\<open>C8\<close> (page name and output file).  For every page file that yields a page, the page
  name is the relative path of the file up to its first dot; for a file at the top of the
  pages root this is the base name up to its first dot.  A page that renders gives one
  rendered page, named by the page name followed by \<^verbatim>\<open>.html\<close>, so the output of a file
  in a subdirectory keeps the directory in its name.
\<close>

theorem page_name_and_output:
  assumes "read_page p w file = (Some pg, ls)"
  shows "name pg = takeWhile (\<lambda>c. c \<noteq> CHR ''.'') file
         \<and> (CHR ''/'' \<notin> set file \<longrightarrow> name pg = spec_page_name file)
         \<and> (\<forall>parts r. render_page p w parts (Some pg) = Inr r \<longrightarrow>
               (\<exists>rp. r = Some rp
                  \<and> filename rp = takeWhile (\<lambda>c. c \<noteq> CHR ''.'') file @ ''.html''
                  \<and> absoluteFilename rp
                       = path_resolve (destDir p) (takeWhile (\<lambda>c. c \<noteq> CHR ''.'') file) @ ''.html''))"
proof -
  from read_page_name[OF assms] have n: "name pg = takeWhile (\<lambda>c. c \<noteq> CHR ''.'') file"
    by simp
  moreover have "CHR ''/'' \<notin> set file \<longrightarrow> name pg = spec_page_name file"
    using n by (simp add: spec_page_name_def basename_plain)
  moreover have "\<forall>parts r. render_page p w parts (Some pg) = Inr r \<longrightarrow>
               (\<exists>rp. r = Some rp
                  \<and> filename rp = takeWhile (\<lambda>c. c \<noteq> CHR ''.'') file @ ''.html''
                  \<and> absoluteFilename rp
                       = path_resolve (destDir p) (takeWhile (\<lambda>c. c \<noteq> CHR ''.'') file) @ ''.html'')"
    using render_page_filename[of p w _ pg] n by auto
  ultimately show ?thesis by simp
qed

text \<open>
  \<^verbatim>\<open>home.js\<close> at the top of the pages root gives \<^verbatim>\<open>home.html\<close>.
\<close>

theorem page_name_and_output_witness:
  "name \<lparr>name = ''home'', fn = home_fn\<rparr> = spec_page_name ''home.js''
   \<and> (\<exists>rp. render_page (sample_plugin None) card_site [''card'' \<mapsto> card_hbs]
               (Some \<lparr>name = ''home'', fn = home_fn\<rparr>) = Inr (Some rp)
            \<and> filename rp = ''home.html'' \<and> absoluteFilename rp = ''/site/dist/home.html'')"
proof -
  have rd: "read_page (sample_plugin None) card_site ''home.js'' = (Some \<lparr>name = ''home'', fn = home_fn\<rparr>, [])"
    by (simp add: card_site_def site_def read_home match_prefix_without_def)
  have rn: "render_page (sample_plugin None) card_site [''card'' \<mapsto> card_hbs]
               (Some \<lparr>name = ''home'', fn = home_fn\<rparr>)
      = Inr (Some \<lparr>filename = ''home.html'', absoluteFilename = ''/site/dist/home.html'',
                   html = ''<div>Hi</div>''\<rparr>)"
    by (simp add: card_site_def site_def render_home_page)
  from page_name_and_output[OF rd] rn show ?thesis
    by (simp add: path_resolve_def)
qed

text \<open>
  For \<^verbatim>\<open>blog/post.js\<close> the base name up to the first dot is \<^verbatim>\<open>post\<close>, the page name is
  \<^verbatim>\<open>blog/post\<close>: the pass emits \<^verbatim>\<open>blog/post.html\<close> and no \<^verbatim>\<open>post.html\<close>.
\<close>

theorem subdirectory_page_counterexample:
  "\<not> startsWith_underscore ''blog/post.js''
   \<and> spec_page_name ''blog/post.js'' = ''post''
   \<and> read_page (sample_plugin None) nested_site ''blog/post.js''
       = (Some \<lparr>name = ''blog/post'', fn = home_fn\<rparr>, [])
   \<and> callback_called (processAssets (sample_plugin None) nested_site
                (initial_state (sample_plugin None) Map.empty))
   \<and> assets (final_state (processAssets (sample_plugin None) nested_site
                (initial_state (sample_plugin None) Map.empty))) ''blog/post.html''
       = Some \<lparr>source = ''<div>Hi</div>'', created = True\<rparr>
   \<and> assets (final_state (processAssets (sample_plugin None) nested_site
                (initial_state (sample_plugin None) Map.empty))) ''post.html'' = None"
proof -
  have "spec_page_name ''blog/post.js'' = ''post''"
    by (simp add: spec_page_name_def basename_def)
  moreover have "read_page (sample_plugin None) nested_site ''blog/post.js''
       = (Some \<lparr>name = ''blog/post'', fn = home_fn\<rparr>, [])"
    by (simp add: nested_site_def site_def read_home match_prefix_without_def)
  moreover have "assets (final_state (processAssets (sample_plugin None) nested_site
                (initial_state (sample_plugin None) Map.empty))) ''blog/post.html''
       = Some \<lparr>source = ''<div>Hi</div>'', created = True\<rparr>"
    "assets (final_state (processAssets (sample_plugin None) nested_site
                (initial_state (sample_plugin None) Map.empty))) ''post.html'' = None"
    "callback_called (processAssets (sample_plugin None) nested_site
                (initial_state (sample_plugin None) Map.empty))"
    by (simp_all add: nested_site_handler emit_pages_def emit_page_def initial_state_def)
  ultimately show ?thesis by simp
qed

text \<open>
  \<^bold>\<open>C9\<close> (dependency tracking).  When a pass completes, the file
  dependencies of the compilation are those it had before, the absolute path of every
  file that \<^verbatim>\<open>glob.sync('**/*.js')\<close> finds beneath the pages root and the absolute path
  of every file that \<^verbatim>\<open>glob.sync('**/*.hbs')\<close> finds beneath the components root: the
  files whose name ends in that extension and that have no path segment starting with a
  dot.  Whether a page file was skipped, failed to evaluate or was built plays no role.
  Files of the two roots that the two patterns do not match are not recorded.
\<close>

theorem recorded_dependencies:
  assumes "build_pass p w st = Completed st'"
  shows "fileDependencies st'
           = fileDependencies st
             \<union> path_resolve (pagesDir p) ` {f \<in> set (fs_listing w (pagesDir p)). ends_with ''.js'' f \<and> \<not> hidden f}
             \<union> path_resolve (componentsDir p) ` {f \<in> set (fs_listing w (componentsDir p)). ends_with ''.hbs'' f \<and> \<not> hidden f}"
proof -
  from assms obtain st1 where run: "processAssets p w st = Completed st1"
    and st': "st' = afterCompile p w st1"
    by (auto simp: build_pass_def split: outcome.splits)
  from run processAssets_fileDependencies[of p w st]
  have "fileDependencies st1 = fileDependencies st" by simp
  with st' show ?thesis
    by (simp add: afterCompile_def glob_sync_set)
qed

text \<open>
  The sample site with a built page, an underscore page, a page that fails to evaluate, a
  data file and a style sheet: the three page scripts and the fragment are recorded.
\<close>

theorem recorded_dependencies_witness:
  "fileDependencies (final_state (build_pass (sample_plugin None) mixed_site (initial_state (sample_plugin None) Map.empty)))
     = {''/site/pages/home.js'', ''/site/pages/_helper.js'', ''/site/pages/plain.js'',
        ''/site/components/card/card.hbs''}"
proof -
  let ?p = "sample_plugin None"
  let ?st = "initial_state ?p Map.empty"
  have finished: "build_pass ?p mixed_site ?st = Completed (final_state (build_pass ?p mixed_site ?st))"
    by (simp add: build_pass_def mixed_site_handler)
  have pages: "{f \<in> set (fs_listing mixed_site ''/site/pages''). ends_with ''.js'' f \<and> \<not> hidden f}
      = {''home.js'', ''_helper.js'', ''plain.js''}"
    using glob_sync_set[of mixed_site "''.js''" "''/site/pages''"]
    by (simp add: mixed_site_pages)
  have comps: "{f \<in> set (fs_listing mixed_site ''/site/components''). ends_with ''.hbs'' f \<and> \<not> hidden f}
      = {''card/card.hbs''}"
    using glob_sync_set[of mixed_site "''.hbs''" "''/site/components''"]
    by (simp add: mixed_site_components)
  have "fileDependencies ?st = {}"
    by (simp add: initial_state_def)
  with recorded_dependencies[OF finished] show ?thesis
    unfolding sample_plugin_fields pages comps
    by (simp add: path_resolve_def insert_commute)
qed

text \<open>
  Not every file under the two roots is recorded.  On the same site the pass completes,
  \<^verbatim>\<open>data.json\<close> lies under the pages root and \<^verbatim>\<open>card/card.css\<close> under the components
  root, and neither is among the recorded dependencies.
\<close>

theorem every_file_recorded_counterexample:
  "callback_called (build_pass (sample_plugin None) mixed_site (initial_state (sample_plugin None) Map.empty))
   \<and> ''data.json'' \<in> set (fs_listing mixed_site (pagesDir (sample_plugin None)))
   \<and> path_resolve (pagesDir (sample_plugin None)) ''data.json''
        \<notin> fileDependencies (final_state (build_pass (sample_plugin None) mixed_site
                                 (initial_state (sample_plugin None) Map.empty)))
   \<and> ''card/card.css'' \<in> set (fs_listing mixed_site (componentsDir (sample_plugin None)))
   \<and> path_resolve (componentsDir (sample_plugin None)) ''card/card.css''
        \<notin> fileDependencies (final_state (build_pass (sample_plugin None) mixed_site
                                 (initial_state (sample_plugin None) Map.empty)))"
proof -
  let ?p = "sample_plugin None"
  let ?st = "initial_state ?p Map.empty"
  have deps: "fileDependencies (final_state (build_pass ?p mixed_site ?st))
      = {''/site/pages/home.js'', ''/site/pages/_helper.js'', ''/site/pages/plain.js'',
         ''/site/components/card/card.hbs''}"
    unfolding build_pass_def mixed_site_handler
    by (simp add: afterCompile_def mixed_site_pages mixed_site_components initial_state_def
        path_resolve_def insert_commute)
  have called: "callback_called (build_pass ?p mixed_site ?st)"
    by (simp add: build_pass_def mixed_site_handler)
  have listed: "''data.json'' \<in> set (fs_listing mixed_site ''/site/pages'')"
    "''card/card.css'' \<in> set (fs_listing mixed_site ''/site/components'')"
    by (simp_all add: mixed_site_def site_def sample_listing_def)
  show ?thesis
    unfolding deps sample_plugin_fields
    using called listed by (simp add: path_resolve_def)
qed

text \<open>
  \<^bold>\<open>C10\<close> (the bindings of the sandbox).  The \<^verbatim>\<open>require\<close> of the context hands a
  request that starts with \<^verbatim>\<open>./\<close> or \<^verbatim>\<open>../\<close> to the loader of the page file's module as
  the directory, a slash and the request, and every other request unchanged; a page
  script that calls \<^verbatim>\<open>require\<close> gets this function with the directory of the page file.
  An assignment \<^verbatim>\<open>exports.k = v\<close> writes to the exports object of the plugin's own
  module and leaves the \<^verbatim>\<open>exports\<close> of the per-file module as it was; its value \<open>v\<close> is
  the completion value of that statement.  The evaluator's result is a function of the
  completion value alone: two runs that end with the same completion value give the
  same result, whatever the two exports objects hold.
\<close>

theorem sandbox_bindings:
  "(prefix ''./'' request \<or> prefix ''../'' request \<longrightarrow>
      sandbox_require w file dir request = module_require w file (dir @ ''/'' @ request))
   \<and> (\<not> prefix ''./'' request \<and> \<not> prefix ''../'' request \<longrightarrow>
      sandbox_require w file dir request = module_require w file request)
   \<and> (fs_read w file = Some src \<and> vm_parse w src = Some [RequireCall request] \<longrightarrow>
        run_page_script w file
          = (case sandbox_require w file (path_dirname file) request of
               Inl e \<Rightarrow> Inl (Thrown e)
             | Inr v \<Rightarrow> Inr \<lparr>completion = v, mod_exports = JObject [],
                               exports_obj = plugin_exports w\<rparr>))
   \<and> (fs_read w file = Some src \<and> vm_parse w src = Some [AssignExportsProp k v] \<longrightarrow>
        run_page_script w file
          = Inr \<lparr>completion = v, mod_exports = JObject [],
                 exports_obj = (k, v) # filter (\<lambda>p. fst p \<noteq> k) (plugin_exports w)\<rparr>)
   \<and> (exec_stmt req (AssignExportsProp k v) st = Inr st' \<longrightarrow>
        mod_exports st' = mod_exports st \<and> map_of (exports_obj st') k = Some v \<and> completion st' = v)
   \<and> (file \<noteq> [] \<and> file' \<noteq> [] \<and> run_page_script w file = Inr s1
        \<and> run_page_script w' file' = Inr s2 \<and> completion s1 = completion s2 \<longrightarrow>
        evaluateCompilationResult w file = evaluateCompilationResult w' file')"
  by (auto simp: sandbox_require_def matches_relative_iff run_page_script_def
      evaluateCompilationResult_def split: sum.splits)

text \<open>
  A relative and a bare request on the sample site, the script that requires
  \<^verbatim>\<open>./_helper\<close>, the script that only writes \<^verbatim>\<open>exports.ready\<close>, and two scripts with
  the same completion value.
\<close>

theorem sandbox_bindings_witness:
  "sandbox_require script_site ''/site/pages/require.js'' ''/site/pages'' ''./_helper''
     = Inr (JObject [(''title'', JString ''Hi'')])
   \<and> sandbox_require script_site ''/site/pages/require.js'' ''/site/pages'' ''lodash''
     = Inl (JString ''Cannot find module lodash'')
   \<and> run_page_script script_site ''/site/pages/require.js''
     = Inr \<lparr>completion = JObject [(''title'', JString ''Hi'')], mod_exports = JObject [],
            exports_obj = []\<rparr>
   \<and> run_page_script script_site ''/site/pages/ready.js''
     = Inr \<lparr>completion = JBool True, mod_exports = JObject [],
            exports_obj = [(''ready'', JBool True)]\<rparr>
   \<and> evaluateCompilationResult script_site ''/site/pages/home.js''
     = evaluateCompilationResult script_site ''/site/pages/declared.js''"
proof -
  have "sandbox_require script_site ''/site/pages/require.js'' ''/site/pages'' ''./_helper''
     = Inr (JObject [(''title'', JString ''Hi'')])"
    using sandbox_bindings[of "''./_helper''" script_site "''/site/pages/require.js''" "''/site/pages''"]
    by (simp add: script_site_read sample_require_def)
  moreover have "sandbox_require script_site ''/site/pages/require.js'' ''/site/pages'' ''lodash''
     = Inl (JString ''Cannot find module lodash'')"
    using sandbox_bindings[of "''lodash''" script_site "''/site/pages/require.js''" "''/site/pages''"]
    by (simp add: script_site_read sample_require_def)
  moreover have "run_page_script script_site ''/site/pages/require.js''
     = Inr \<lparr>completion = JObject [(''title'', JString ''Hi'')], mod_exports = JObject [],
            exports_obj = []\<rparr>"
    using sandbox_bindings[of "''./_helper''" script_site "''/site/pages/require.js''" _ require_js]
    by (simp add: script_site_read parse_require path_dirname_def sandbox_require_def
        sample_require_def)
  moreover have "run_page_script script_site ''/site/pages/ready.js''
     = Inr \<lparr>completion = JBool True, mod_exports = JObject [],
            exports_obj = [(''ready'', JBool True)]\<rparr>"
    using sandbox_bindings[of _ script_site "''/site/pages/ready.js''" _ ready_js "''ready''" "JBool True"]
    by (simp add: script_site_read parse_ready)
  moreover have "evaluateCompilationResult script_site ''/site/pages/home.js''
     = evaluateCompilationResult script_site ''/site/pages/declared.js''"
    using sandbox_bindings[of _ script_site "''/site/pages/home.js''" _ _ _ _ _ _ _
        "''/site/pages/declared.js''"
        "\<lparr>completion = JFunction home_fn, mod_exports = JFunction home_fn, exports_obj = []\<rparr>"
        script_site
        "\<lparr>completion = JFunction home_fn, mod_exports = JFunction home_fn, exports_obj = []\<rparr>"]
    by (simp add: script_site_runs)
  ultimately show ?thesis by simp
qed

text \<open>
  An assignment to \<^verbatim>\<open>exports\<close> can change what the evaluator extracts: the second script
  is the first followed by \<^verbatim>\<open>exports.ready = true\<close>, whose value becomes the completion
  value; the first yields the page function, the second is rejected.
\<close>

theorem exports_assignment_counterexample:
  "vm_parse script_site home_js = Some [AssignModuleExports (JFunction home_fn)]
   \<and> vm_parse script_site exports_js
       = Some ([AssignModuleExports (JFunction home_fn)] @ [AssignExportsProp ''ready'' (JBool True)])
   \<and> evaluateCompilationResult script_site ''/site/pages/home.js'' = Inr home_fn
   \<and> evaluateCompilationResult script_site ''/site/pages/exports.js''
       = Inl (PluginError ''Source not produce an HTML'')"
  by (simp add: script_site_results script_site_read parse_home parse_exports)

end
